theory Spec2Isabelle
  imports Main "HOL-Library.Word"
begin

unbundle bit_operations_syntax

section \<open>Python values and built-in operations used by the scrapers\<close>

text \<open>
  A Python \<open>str\<close> is a \<open>string\<close>, one \<open>char\<close> per code point; code points above 255 are
  outside the model. Exceptions are values of \<open>py_error\<close>; a computation that may raise has type
  \<open>py_error + 'a\<close>, with \<open>Inl\<close> for the exception.
\<close>

datatype py_error =
    AttributeError | IndexError | KeyError | TypeError | ValueError
  | JSONDecodeError | ValidationError | TimeoutException | RuntimeError | RecursionError
  | OtherError

text \<open>
  A decoded JSON document, as \<open>response.json()\<close> and \<open>json.loads\<close> return it. A float carries
  its IEEE-754 bit pattern; the only operation on it is the truth test. An object is an association
  list, looked up from the front.
\<close>

datatype json =
    JNull
  | JBool bool
  | JInt int
  | JFloat "64 word"
  | JStr string
  | JList "json list"
  | JObj "(string \<times> json) list"

fun truthy :: "json \<Rightarrow> bool" where
  "truthy JNull = False"
| "truthy (JBool b) = b"
| "truthy (JInt i) = (i \<noteq> 0)"
| "truthy (JFloat w) = (w AND 0x7FFFFFFFFFFFFFFF \<noteq> 0)"
| "truthy (JStr s) = (s \<noteq> [])"
| "truthy (JList xs) = (xs \<noteq> [])"
| "truthy (JObj kvs) = (kvs \<noteq> [])"

definition py_or :: "json \<Rightarrow> json \<Rightarrow> json" where
  \<comment> \<open>\<open>a or b\<close>\<close>
  "py_or a b = (if truthy a then a else b)"

definition dict_get :: "(string \<times> json) list \<Rightarrow> string \<Rightarrow> json \<Rightarrow> json" where
  \<comment> \<open>\<open>d.get(k, default)\<close> on a dict\<close>
  "dict_get kvs k d = (case map_of kvs k of None \<Rightarrow> d | Some v \<Rightarrow> v)"

definition py_get :: "json \<Rightarrow> string \<Rightarrow> json \<Rightarrow> py_error + json" where
  \<comment> \<open>\<open>v.get(k, default)\<close> on any decoded value: only a dict has the method\<close>
  "py_get v k d = (case v of JObj kvs \<Rightarrow> Inr (dict_get kvs k d) | _ \<Rightarrow> Inl AttributeError)"

definition bindE :: "py_error + 'a \<Rightarrow> ('a \<Rightarrow> py_error + 'b) \<Rightarrow> py_error + 'b" where
  "bindE m f = (case m of Inl e \<Rightarrow> Inl e | Inr x \<Rightarrow> f x)"

subsection \<open>Strings\<close>

fun startswith :: "string \<Rightarrow> string \<Rightarrow> bool" where
  "startswith s [] = True"
| "startswith [] (p # ps) = False"
| "startswith (c # cs) (p # ps) = (c = p \<and> startswith cs ps)"

fun py_in :: "string \<Rightarrow> string \<Rightarrow> bool" where
  \<comment> \<open>\<open>sub in s\<close>\<close>
  "py_in sub [] = (sub = [])"
| "py_in sub (c # cs) = (startswith (c # cs) sub \<or> py_in sub cs)"

text \<open>
  \<open>s.split(sep)\<close> scans from the left and cuts at each occurrence of \<open>sep\<close> it meets, resuming
  after the occurrence, so occurrences that overlap an earlier cut are not seen. \<open>acc\<close> holds the
  current piece, reversed. An empty separator raises \<open>ValueError\<close>.
\<close>

function split_scan :: "string \<Rightarrow> string \<Rightarrow> string \<Rightarrow> string list" where
  "split_scan sep acc [] = [rev acc]"
| "split_scan sep acc (c # cs) =
     (if sep \<noteq> [] \<and> startswith (c # cs) sep
      then rev acc # split_scan sep [] (drop (length sep) (c # cs))
      else split_scan sep (c # acc) cs)"
  by pat_completeness auto
termination
  by (relation "measure (\<lambda>(sep, acc, s). length s)") auto

definition py_split :: "string \<Rightarrow> string \<Rightarrow> py_error + string list" where
  "py_split s sep = (if sep = [] then Inl ValueError else Inr (split_scan sep [] s))"

definition py_index :: "'a list \<Rightarrow> int \<Rightarrow> py_error + 'a" where
  \<comment> \<open>\<open>xs[i]\<close>: an index below zero is taken from the end of the list\<close>
  "py_index xs i =
     (if 0 \<le> i \<and> i < int (length xs) then Inr (xs ! nat i)
      else if i < 0 \<and> - int (length xs) \<le> i then Inr (xs ! nat (int (length xs) + i))
      else Inl IndexError)"

section \<open>URL/ID resolver\<close>

text \<open>
  \<open>DouyinAPIScraper._extract_video_id\<close> and \<open>DouyinScraperPro._extract_video_id\<close> have the same
  body inside \<open>try\<close>; they differ in the value returned when no marker is found or when the body
  raises (\<open>""\<close> and \<open>"unknown"\<close>).
\<close>

definition extract_video_id_body :: "string \<Rightarrow> py_error + string option" where
  \<comment> \<open>the statements under \<open>try\<close>; \<open>None\<close> is the \<open>else\<close> branch\<close>
  "extract_video_id_body url =
     (if py_in ''modal_id='' url then
        bindE (py_split url ''modal_id='') (\<lambda>parts.
        bindE (py_index parts (-1)) (\<lambda>tail.
        bindE (py_split tail ''&'') (\<lambda>pieces.
        bindE (py_index pieces 0) (\<lambda>v. Inr (Some v)))))
      else if py_in ''/video/'' url then
        bindE (py_split url ''/video/'') (\<lambda>parts.
        bindE (py_index parts (-1)) (\<lambda>tail.
        bindE (py_split tail ''?'') (\<lambda>pieces.
        bindE (py_index pieces 0) (\<lambda>v. Inr (Some v)))))
      else Inr None)"

definition extract_video_id_with :: "string \<Rightarrow> string \<Rightarrow> string" where
  "extract_video_id_with sentinel url =
     (case extract_video_id_body url of
        Inl e \<Rightarrow> sentinel
      | Inr None \<Rightarrow> sentinel
      | Inr (Some v) \<Rightarrow> v)"

definition DouyinAPIScraper_extract_video_id :: "string \<Rightarrow> string" where
  "DouyinAPIScraper_extract_video_id url = extract_video_id_with '''' url"

definition DouyinScraperPro_extract_video_id :: "string \<Rightarrow> string" where
  "DouyinScraperPro_extract_video_id url = extract_video_id_with ''unknown'' url"

definition TikTokAPIScraper_extract_video_id :: "string \<Rightarrow> py_error + string" where
  \<comment> \<open>no \<open>try\<close> here: an exception would leave the function\<close>
  "TikTokAPIScraper_extract_video_id url =
     (if py_in ''/video/'' url then
        bindE (py_split url ''/video/'') (\<lambda>parts.
        bindE (py_index parts (-1)) (\<lambda>tail.
        bindE (py_split tail ''?'') (\<lambda>pieces.
        py_index pieces 0)))
      else Inr '''')"

definition TikTokScraper_extract_video_id :: "string \<Rightarrow> string" where
  "TikTokScraper_extract_video_id url =
     (case (if py_in ''/video/'' url then
              bindE (py_split url ''/video/'') (\<lambda>parts.
              bindE (py_index parts (-1)) (\<lambda>tail.
              bindE (py_split tail ''?'') (\<lambda>pieces.
              py_index pieces 0)))
            else Inr ''unknown_video'') of
        Inl e \<Rightarrow> ''unknown_video''
      | Inr v \<Rightarrow> v)"

section \<open>Library behaviour the scrapers rely on\<close>

text \<open>
  The repository calls into the Python runtime and third-party packages whose code is not part of
  it. Where their behaviour is certain it is written out below; everything else is a field of
  \<open>library\<close>, over which the theorems quantify:
  \<^item> \<open>repr\<close>: \<open>str()\<close> of a float, list or dict;
  \<^item> \<open>now_iso\<close>: the reading of \<open>datetime.now().isoformat()\<close>;
  \<^item> \<open>hash_str\<close>: the built-in \<open>hash\<close> on strings, a machine integer;
  \<^item> \<open>hash_other\<close>: \<open>hash\<close> on the other hashable values;
  \<^item> \<open>json_loads\<close>: \<open>json.loads\<close>, which decodes or raises (\<open>JSONDecodeError\<close>, and also
    \<open>ValueError\<close> on an integer literal longer than the interpreter converts, \<open>RecursionError\<close>);
  \<^item> \<open>py_int\<close>: \<open>int()\<close> of a string, with \<open>None\<close> for \<open>ValueError\<close>;
  \<^item> \<open>fromtimestamp_other\<close>: \<open>datetime.fromtimestamp\<close> outside the plain integer range;
  \<^item> \<open>lax_author\<close>, \<open>lax_comment\<close>: what pydantic does with constructor arguments that
    neither have the declared field types nor are short decimal numerals given for an integer
    field (coercion or \<open>ValidationError\<close>);
  \<^item> \<open>output_write\<close>: what creating the output directory and writing the comments to the
    result file raises, if anything;
  \<^item> \<open>summary_other\<close>: what the arithmetic and the formatting of \<open>_print_summary\<close> raise on
    like counts that are integers of magnitude \<open>2 ^ 1023\<close> and more, and on a text that is a
    list;
  \<^item> \<open>dict_slice_error\<close>: the exception of \<open>d[:80]\<close> on a dict (\<open>TypeError\<close> up to
    Python 3.11, \<open>KeyError\<close> from 3.12 on).
\<close>

datatype Sentiment = POSITIVE | NEGATIVE | NEUTRAL | SUGGESTION | QUESTION

datatype datetime = Epoch int | Now

record CommentAuthor =
  username :: string
  display_name :: "string option"
  avatar_url :: "string option"
  user_id :: string

record Comment =
  comment_id :: string
  video_id :: string
  text_field :: string
  author :: CommentAuthor
  like_count :: int
  reply_count :: int
  parent_comment_id :: "string option"
  created_at :: datetime
  is_pinned :: bool
  sentiment :: "Sentiment option"

record author_args =
  a_username :: json
  a_display_name :: json
  a_user_id :: string
  a_avatar_url :: json

record comment_args =
  c_comment_id :: json
  c_video_id :: string
  c_text :: json
  c_author :: CommentAuthor
  c_like_count :: json
  c_reply_count :: json
  c_parent_comment_id :: json
  c_created_at :: datetime
  c_is_pinned :: json

record library =
  repr :: "json \<Rightarrow> string"
  now_iso :: string
  hash_str :: "string \<Rightarrow> 64 word"
  hash_other :: "json \<Rightarrow> 64 word"
  json_loads :: "string \<Rightarrow> py_error + json"
  py_int :: "string \<Rightarrow> int option"
  fromtimestamp_other :: "json \<Rightarrow> py_error + datetime"
  lax_author :: "author_args \<Rightarrow> py_error + CommentAuthor"
  lax_comment :: "comment_args \<Rightarrow> py_error + Comment"
  output_write :: "json list \<Rightarrow> py_error option"
  summary_other :: "json list \<Rightarrow> py_error option"
  dict_slice_error :: py_error

subsection \<open>Decimal numerals, \<open>str()\<close>\<close>

function str_of_nat :: "nat \<Rightarrow> string" where
  "str_of_nat n =
     (if n < 10 then [''0123456789'' ! n]
      else str_of_nat (n div 10) @ [''0123456789'' ! (n mod 10)])"
  by pat_completeness auto
termination
  by (relation "measure (\<lambda>n. n)") auto

definition str_of_int :: "int \<Rightarrow> string" where
  "str_of_int i = (if i < 0 then CHR ''-'' # str_of_nat (nat (- i)) else str_of_nat (nat i))"

definition py_str :: "library \<Rightarrow> json \<Rightarrow> string" where
  "py_str lib v =
     (case v of
        JStr s \<Rightarrow> s
      | JInt i \<Rightarrow> str_of_int i
      | JNull \<Rightarrow> ''None''
      | JBool b \<Rightarrow> (if b then ''True'' else ''False'')
      | _ \<Rightarrow> repr lib v)"

subsection \<open>Subscripts and iteration over decoded values\<close>

definition py_subscript0 :: "json \<Rightarrow> py_error + json" where
  \<comment> \<open>\<open>v[0]\<close>\<close>
  "py_subscript0 v =
     (case v of
        JList xs \<Rightarrow> py_index xs 0
      | JStr s \<Rightarrow> (case s of [] \<Rightarrow> Inl IndexError | c # cs \<Rightarrow> Inr (JStr [c]))
      | JObj kvs \<Rightarrow> Inl KeyError
      | _ \<Rightarrow> Inl TypeError)"

definition py_iter :: "json \<Rightarrow> py_error + json list" where
  \<comment> \<open>the items a \<open>for\<close> loop visits: list elements, the characters of a string, the keys of a dict\<close>
  "py_iter v =
     (case v of
        JList xs \<Rightarrow> Inr xs
      | JStr s \<Rightarrow> Inr (map (\<lambda>c. JStr [c]) s)
      | JObj kvs \<Rightarrow> Inr (map JStr (remdups (map fst kvs)))
      | _ \<Rightarrow> Inl TypeError)"

subsection \<open>The pydantic models of \<open>models/comment.py\<close>\<close>

definition as_str :: "json \<Rightarrow> string option" where
  "as_str v = (case v of JStr s \<Rightarrow> Some s | _ \<Rightarrow> None)"

definition as_opt_str :: "json \<Rightarrow> string option option" where
  "as_opt_str v = (case v of JNull \<Rightarrow> Some None | JStr s \<Rightarrow> Some (Some s) | _ \<Rightarrow> None)"

definition digit_value :: "char \<Rightarrow> int" where
  "digit_value c = int (of_char c) - 48"

definition decimal :: "string \<Rightarrow> int option" where
  \<comment> \<open>the value of a non-empty string of ASCII digits\<close>
  "decimal s =
     (if s \<noteq> [] \<and> list_all (\<lambda>c. 48 \<le> (of_char c :: nat) \<and> (of_char c :: nat) \<le> 57) s
      then Some (foldl (\<lambda>a c. 10 * a + digit_value c) 0 s) else None)"

definition as_int :: "json \<Rightarrow> int option" where
  \<comment> \<open>an \<open>int\<close> field takes an integer as it is; pydantic's default (lax) mode also reads a
      string that is a decimal numeral, here of at most 18 digits\<close>
  "as_int v =
     (case v of
        JInt i \<Rightarrow> Some i
      | JStr s \<Rightarrow> (if length s \<le> 18 then decimal s else None)
      | _ \<Rightarrow> None)"

definition as_bool :: "json \<Rightarrow> bool option" where
  "as_bool v = (case v of JBool b \<Rightarrow> Some b | _ \<Rightarrow> None)"

definition new_CommentAuthor :: "library \<Rightarrow> author_args \<Rightarrow> py_error + CommentAuthor" where
  \<comment> \<open>\<open>CommentAuthor(username=..., display_name=..., user_id=..., avatar_url=...)\<close>\<close>
  "new_CommentAuthor lib a =
     (case (as_str (a_username a), as_opt_str (a_display_name a), as_opt_str (a_avatar_url a)) of
        (Some u, Some d, Some av) \<Rightarrow>
          Inr \<lparr>username = u, display_name = d, avatar_url = av, user_id = a_user_id a\<rparr>
      | _ \<Rightarrow> lax_author lib a)"

definition new_Comment :: "library \<Rightarrow> comment_args \<Rightarrow> py_error + Comment" where
  \<comment> \<open>\<open>Comment(comment_id=..., ...)\<close>; \<open>sentiment\<close> keeps its default \<open>None\<close>\<close>
  "new_Comment lib c =
     (case (as_str (c_comment_id c), as_str (c_text c), as_int (c_like_count c),
            as_int (c_reply_count c), as_opt_str (c_parent_comment_id c), as_bool (c_is_pinned c)) of
        (Some cid, Some t, Some lk, Some rc, Some par, Some pin) \<Rightarrow>
          Inr \<lparr>comment_id = cid, video_id = c_video_id c, text_field = t, author = c_author c,
               like_count = lk, reply_count = rc, parent_comment_id = par,
               created_at = c_created_at c, is_pinned = pin, sentiment = None\<rparr>
      | _ \<Rightarrow> lax_comment lib c)"

definition fromtimestamp :: "library \<Rightarrow> json \<Rightarrow> py_error + datetime" where
  \<comment> \<open>\<open>datetime.fromtimestamp(v)\<close>\<close>
  "fromtimestamp lib v =
     (case v of
        JInt t \<Rightarrow> (if 0 \<le> t \<and> t < 4294967296 then Inr (Epoch t) else fromtimestamp_other lib v)
      | JNull \<Rightarrow> Inl TypeError
      | JStr s \<Rightarrow> Inl TypeError
      | JList xs \<Rightarrow> Inl TypeError
      | JObj kvs \<Rightarrow> Inl TypeError
      | _ \<Rightarrow> fromtimestamp_other lib v)"

section \<open>Comment normalizer, API variants\<close>

text \<open>
  \<open>TikTokAPIScraper._parse_comment\<close>. Keyword arguments are evaluated left to right, each
  \<open>.get\<close> on a value that is not a dict raising \<open>AttributeError\<close>, before the constructor runs.
  A missing \<open>create_time\<close> takes the clock reading, which \<open>fromtimestamp\<close> accepts.
\<close>

definition TikTokAPIScraper_parse_comment :: "library \<Rightarrow> json \<Rightarrow> string \<Rightarrow> py_error + Comment" where
  "TikTokAPIScraper_parse_comment lib data vid =
     bindE (py_get data ''cid'' (JStr '''')) (\<lambda>cid.
     bindE (py_get data ''user'' (JObj [])) (\<lambda>author_data.
     bindE (py_get author_data ''unique_id'' (JStr ''anonymous'')) (\<lambda>uname.
     bindE (py_get author_data ''nickname'' JNull) (\<lambda>nick.
     bindE (py_get author_data ''uid'' (JStr '''')) (\<lambda>uid.
     bindE (py_get author_data ''avatar_thumb'' (JObj [])) (\<lambda>thumb.
     bindE (py_get thumb ''url_list'' (JList [JStr ''''])) (\<lambda>url_list.
     bindE (py_subscript0 url_list) (\<lambda>avatar.
     bindE (new_CommentAuthor lib
              \<lparr>a_username = uname, a_display_name = nick,
               a_user_id = py_str lib uid, a_avatar_url = avatar\<rparr>) (\<lambda>auth.
     bindE (py_get data ''text'' (JStr '''')) (\<lambda>txt.
     bindE (py_get data ''digg_count'' (JInt 0)) (\<lambda>likes.
     bindE (py_get data ''reply_comment_total'' (JInt 0)) (\<lambda>replies.
     bindE (py_get data ''reply_to_reply_id'' JNull) (\<lambda>parent.
     bindE (case data of
              JObj kvs \<Rightarrow> (case map_of kvs ''create_time'' of
                             None \<Rightarrow> Inr Now
                           | Some t \<Rightarrow> fromtimestamp lib t)
            | _ \<Rightarrow> Inl AttributeError) (\<lambda>created.
     bindE (py_get data ''is_pinned'' (JBool False)) (\<lambda>pinned.
     new_Comment lib
       \<lparr>c_comment_id = cid, c_video_id = vid, c_text = txt, c_author = auth,
        c_like_count = likes, c_reply_count = replies, c_parent_comment_id = parent,
        c_created_at = created, c_is_pinned = pinned\<rparr>)))))))))))))))"

text \<open>
  \<open>DouyinAPIScraper._parse_comments\<close>. The normalized comment is a dict, here an association list
  in the order the source writes its keys. An exception while handling one record is caught and the
  record skipped; \<open>idx\<close> is the position of the record in this page.
\<close>

definition douyin_username :: "json \<Rightarrow> py_error + json" where
  \<comment> \<open>\<open>user_data.get("nickname") or user_data.get("unique_id") or user_data.get("uid", "")\<close>\<close>
  "douyin_username user_data =
     bindE (py_get user_data ''nickname'' JNull) (\<lambda>n1.
     if truthy n1 then Inr n1
     else bindE (py_get user_data ''unique_id'' JNull) (\<lambda>n2.
          if truthy n2 then Inr n2 else py_get user_data ''uid'' (JStr '''')))"

definition douyin_record :: "library \<Rightarrow> string \<Rightarrow> nat \<Rightarrow> json \<Rightarrow> json \<Rightarrow> py_error + (string \<times> json) list" where
  \<comment> \<open>the statements after the text test: user, likes and the dict that is appended\<close>
  "douyin_record lib vid idx comment_data txt =
     bindE (py_get comment_data ''user'' (JObj [])) (\<lambda>user_data.
     bindE (douyin_username user_data) (\<lambda>uname.
     bindE (py_get comment_data ''like_count'' (JInt 0)) (\<lambda>lk.
     bindE (py_get comment_data ''digg_count'' lk) (\<lambda>likes.
     bindE (py_get comment_data ''cid'' (JStr (vid @ ''_'' @ str_of_nat idx))) (\<lambda>cid.
     bindE (py_get user_data ''id'' (JStr '''')) (\<lambda>uid0.
     bindE (py_get user_data ''uid'' uid0) (\<lambda>uid.
     Inr [(''comment_id'', cid),
          (''video_id'', JStr vid),
          (''text'', txt),
          (''username'', uname),
          (''likes'', likes),
          (''timestamp'', JStr (now_iso lib)),
          (''user_id'', JStr (py_str lib uid))])))))))"

definition douyin_parse_one :: "library \<Rightarrow> string \<Rightarrow> nat \<Rightarrow> json \<Rightarrow> py_error + (string \<times> json) list option" where
  \<comment> \<open>the body of the \<open>try\<close>; \<open>None\<close> is the \<open>continue\<close> on empty text\<close>
  "douyin_parse_one lib vid idx comment_data =
     bindE (py_get comment_data ''text'' JNull) (\<lambda>t1.
     bindE (py_get comment_data ''comment_text'' JNull) (\<lambda>t2.
     let txt = (if truthy t1 then t1 else py_or t2 (JStr '''')) in
     if \<not> truthy txt then Inr None
     else bindE (douyin_record lib vid idx comment_data txt) (\<lambda>c. Inr (Some c))))"

fun douyin_parse_from :: "library \<Rightarrow> string \<Rightarrow> nat \<Rightarrow> json list \<Rightarrow> json list" where
  \<comment> \<open>the \<open>for idx, comment_data in enumerate(...)\<close> loop, from position \<open>idx\<close> on\<close>
  "douyin_parse_from lib vid idx [] = []"
| "douyin_parse_from lib vid idx (x # xs) =
     (case douyin_parse_one lib vid idx x of
        Inr (Some c) \<Rightarrow> JObj c # douyin_parse_from lib vid (Suc idx) xs
      | _ \<Rightarrow> douyin_parse_from lib vid (Suc idx) xs)"

definition DouyinAPIScraper_parse_comments :: "library \<Rightarrow> json \<Rightarrow> string \<Rightarrow> py_error + json list" where
  \<comment> \<open>\<open>enumerate\<close> of a value that cannot be iterated raises outside the inner \<open>try\<close>\<close>
  "DouyinAPIScraper_parse_comments lib comments_list vid =
     bindE (py_iter comments_list) (\<lambda>items. Inr (douyin_parse_from lib vid 0 items))"

section \<open>Acquisition strategy, API variant\<close>

text \<open>
  The vendor is a function: given the endpoint, the cursor sent and the number of requests the
  run has issued so far, it answers with an exception of the HTTP client or with a response, whose
  \<open>.json()\<close> either raises or decodes. Delays between pages are not modelled.
\<close>

datatype response = Response (status_code: int) (json_of: "py_error + json")

type_synonym transport = "string \<Rightarrow> json \<Rightarrow> nat \<Rightarrow> py_error + response"

definition cap_reached :: "int option \<Rightarrow> nat \<Rightarrow> bool" where
  \<comment> \<open>\<open>max_comments and len(comments) >= max_comments\<close>\<close>
  "cap_reached max_comments n =
     (case max_comments of None \<Rightarrow> False | Some m \<Rightarrow> m \<noteq> 0 \<and> m \<le> int n)"

subsection \<open>\<open>DouyinAPIScraper._try_alternative_api\<close>\<close>

definition py_contains :: "string \<Rightarrow> json \<Rightarrow> py_error + bool" where
  \<comment> \<open>\<open>k in v\<close> for a string \<open>k\<close>\<close>
  "py_contains k v =
     (case v of
        JObj kvs \<Rightarrow> Inr (k \<in> set (map fst kvs))
      | JList xs \<Rightarrow> Inr (JStr k \<in> set xs)
      | JStr s \<Rightarrow> Inr (py_in k s)
      | _ \<Rightarrow> Inl TypeError)"

definition py_getitem :: "json \<Rightarrow> string \<Rightarrow> py_error + json" where
  \<comment> \<open>\<open>v[k]\<close> for a string \<open>k\<close>\<close>
  "py_getitem v k =
     (case v of
        JObj kvs \<Rightarrow> (case map_of kvs k of None \<Rightarrow> Inl KeyError | Some x \<Rightarrow> Inr x)
      | _ \<Rightarrow> Inl TypeError)"

definition alt_comments_list :: "json \<Rightarrow> py_error + json option" where
  \<comment> \<open>the chain of response shapes; \<open>None\<close> is the \<open>continue\<close> of the last \<open>else\<close>\<close>
  "alt_comments_list data =
     bindE (py_contains ''comments'' data) (\<lambda>b1.
     if b1 then bindE (py_getitem data ''comments'') (\<lambda>v. Inr (Some v))
     else
       bindE (py_contains ''aweme_comments'' data) (\<lambda>b2.
       if b2 then bindE (py_getitem data ''aweme_comments'') (\<lambda>v. Inr (Some v))
       else
         bindE (py_contains ''data'' data) (\<lambda>b3.
         if \<not> b3 then Inr None
         else
           bindE (py_getitem data ''data'') (\<lambda>inner.
           bindE (py_contains ''comments'' inner) (\<lambda>b4.
           if \<not> b4 then Inr None
           else
             bindE (py_getitem data ''data'') (\<lambda>inner2.
             bindE (py_getitem inner2 ''comments'') (\<lambda>v. Inr (Some v))))))))"

definition alt_attempt :: "library \<Rightarrow> transport \<Rightarrow> string \<Rightarrow> nat \<Rightarrow> string \<Rightarrow> py_error + json list option" where
  \<comment> \<open>one pass of the \<open>for api_url\<close> body; \<open>Some parsed\<close> is the \<open>break\<close> after \<open>extend\<close>\<close>
  "alt_attempt lib get vid n api_url =
     bindE (get api_url (JStr ''0'') n) (\<lambda>resp.
     if status_code resp \<noteq> 200 then Inr None
     else
       bindE (json_of resp) (\<lambda>data.
       bindE (alt_comments_list data) (\<lambda>found.
       case found of
         None \<Rightarrow> Inr None
       | Some comments_list \<Rightarrow>
           if truthy comments_list
           then bindE (DouyinAPIScraper_parse_comments lib comments_list vid) (\<lambda>parsed.
                  Inr (Some parsed))
           else Inr None)))"

fun alt_urls_loop :: "library \<Rightarrow> transport \<Rightarrow> string \<Rightarrow> nat \<Rightarrow> string list \<Rightarrow> json list" where
  \<comment> \<open>an exception in the body is caught and the next URL tried\<close>
  "alt_urls_loop lib get vid n [] = []"
| "alt_urls_loop lib get vid n (u # us) =
     (case alt_attempt lib get vid n u of
        Inr (Some parsed) \<Rightarrow> parsed
      | _ \<Rightarrow> alt_urls_loop lib get vid (Suc n) us)"

definition DouyinAPIScraper_try_alternative_api :: "library \<Rightarrow> transport \<Rightarrow> string \<Rightarrow> nat \<Rightarrow> json list option" where
  \<comment> \<open>\<open>Some comments\<close> is the result with \<open>"success": True\<close>, \<open>None\<close> the failure dict\<close>
  "DouyinAPIScraper_try_alternative_api lib get vid n =
     (let comments = alt_urls_loop lib get vid n
            [''https://www.douyin.com/aweme/v1/web/comment/list/'',
             ''https://www.douyin.com/comment/v2/list/'']
      in if comments \<noteq> [] then Some comments else None)"

subsection \<open>\<open>DouyinAPIScraper.scrape\<close>\<close>

definition max_pages :: nat where
  "max_pages = 50"

definition api_url :: string where
  "api_url = ''https://www.douyin.com/aweme/v1/web/comment/list/''"

datatype iteration =
    Next "json list" json  \<comment> \<open>the body ran to its end: comments and cursor for the next pass\<close>
  | Break "json list"      \<comment> \<open>\<open>break\<close>, with the comments accumulated\<close>
  | Return "json list"     \<comment> \<open>\<open>return alt_result\<close>, with the comments of the alternative endpoint\<close>

definition douyin_page :: "library \<Rightarrow> transport \<Rightarrow> string \<Rightarrow> json list \<Rightarrow> json \<Rightarrow> nat \<Rightarrow> nat \<Rightarrow> iteration" where
  \<comment> \<open>the loop body after the cap test, from the request on; \<open>n\<close> requests were issued before\<close>
  "douyin_page lib get vid comments cursor page_count n =
     (case get api_url cursor n of
        Inl e \<Rightarrow> Break comments
      | Inr resp \<Rightarrow>
          if status_code resp \<noteq> 200 then
            (if page_count = 0 then
               (case DouyinAPIScraper_try_alternative_api lib get vid (Suc n) of
                  Some alt \<Rightarrow> Return alt
                | None \<Rightarrow> Break comments)
             else Break comments)
          else
            (case json_of resp of
               Inl e \<Rightarrow> Break comments
             | Inr data \<Rightarrow>
                 (case py_get data ''aweme_comments'' JNull of
                    Inl e \<Rightarrow> Break comments
                  | Inr found \<Rightarrow>
                      if \<not> truthy found then Break comments
                      else
                        (case py_get data ''aweme_comments'' (JList []) of
                           Inl e \<Rightarrow> Break comments
                         | Inr comments_list \<Rightarrow>
                             if \<not> truthy comments_list then Break comments
                             else
                               (case DouyinAPIScraper_parse_comments lib comments_list vid of
                                  Inl e \<Rightarrow> Break comments
                                | Inr new_comments \<Rightarrow>
                                    (case py_get data ''cursor'' (JStr '''') of
                                       Inl e \<Rightarrow> Break (comments @ new_comments)
                                     | Inr cursor' \<Rightarrow>
                                         if \<not> truthy cursor' then Break (comments @ new_comments)
                                         else Next (comments @ new_comments) cursor'))))))"

datatype scrape_end =
    Finished (end_comments: "json list") (end_pages: nat) (end_requests: nat)
  | Alternative (end_comments: "json list")

function douyin_loop :: "library \<Rightarrow> transport \<Rightarrow> string \<Rightarrow> int option \<Rightarrow> json list \<Rightarrow> json \<Rightarrow> nat \<Rightarrow> nat \<Rightarrow> scrape_end" where
  \<comment> \<open>\<open>while page_count < max_pages\<close>; \<open>n\<close> counts the requests the loop has sent to \<open>api_url\<close>\<close>
  "douyin_loop lib get vid max_comments comments cursor page_count n =
     (if page_count < max_pages then
        if cap_reached max_comments (length comments) then Finished comments page_count n
        else
          (case douyin_page lib get vid comments cursor page_count n of
             Next comments' cursor' \<Rightarrow>
               douyin_loop lib get vid max_comments comments' cursor' (Suc page_count) (Suc n)
           | Break comments' \<Rightarrow> Finished comments' page_count (Suc n)
           | Return alt \<Rightarrow> Alternative alt)
      else Finished comments page_count n)"
  by pat_completeness auto
termination
  by (relation "measure (\<lambda>(lib, get, vid, max_comments, comments, cursor, page_count, n).
        max_pages - page_count)") auto

text \<open>
  After the loop \<open>scrape\<close> builds the result dict, writes it to a file under \<open>output/\<close> and calls
  \<open>_print_summary\<close>, all outside the \<open>try\<close> block, so what they raise leaves \<open>scrape\<close>. The
  summary adds up the \<open>likes\<close> of all comments with \<open>sum\<close>, divides by their number and prints,
  for the first ten comments, the likes and \<open>text[:80]\<close>. Adding a string, \<open>None\<close>, a list or a
  dict to the running total raises \<open>TypeError\<close>; so does slicing a number or a boolean. Integers
  are unbounded and floats absorb whatever is added; an integer of magnitude \<open>2 ^ 1023\<close> or more,
  where it meets a float, is divided or is printed, is left to the library, and so is the printing
  of a text that is a list. Standard output is taken to accept what is printed.
\<close>

datatype running = IntTotal int | FloatTotal

definition plain_int :: "int \<Rightarrow> bool" where
  \<comment> \<open>an integer that converts to a float and prints in full\<close>
  "plain_int i = (\<bar>i\<bar> < 2 ^ 1023)"

definition add_likes :: "running \<Rightarrow> json \<Rightarrow> (py_error + running) option" where
  \<comment> \<open>\<open>total + v\<close>; \<open>None\<close> where the library decides\<close>
  "add_likes r v =
     (case v of
        JInt i \<Rightarrow>
          (case r of
             IntTotal a \<Rightarrow> Some (Inr (IntTotal (a + i)))
           | FloatTotal \<Rightarrow> if plain_int i then Some (Inr FloatTotal) else None)
      | JBool b \<Rightarrow>
          (case r of
             IntTotal a \<Rightarrow> Some (Inr (IntTotal (a + (if b then 1 else 0))))
           | FloatTotal \<Rightarrow> Some (Inr FloatTotal))
      | JFloat w \<Rightarrow>
          (case r of
             IntTotal a \<Rightarrow> if plain_int a then Some (Inr FloatTotal) else None
           | FloatTotal \<Rightarrow> Some (Inr FloatTotal))
      | _ \<Rightarrow> Some (Inl TypeError))"

fun sum_likes :: "running \<Rightarrow> json list \<Rightarrow> (py_error + running) option" where
  \<comment> \<open>\<open>sum(c.get("likes", 0) for c in comments)\<close>, from the running total \<open>r\<close>\<close>
  "sum_likes r [] = Some (Inr r)"
| "sum_likes r (c # cs) =
     (case py_get c ''likes'' (JInt 0) of
        Inl e \<Rightarrow> Some (Inl e)
      | Inr v \<Rightarrow>
          (case add_likes r v of
             None \<Rightarrow> None
           | Some (Inl e) \<Rightarrow> Some (Inl e)
           | Some (Inr r') \<Rightarrow> sum_likes r' cs))"

definition plain_total :: "running \<Rightarrow> bool" where
  \<comment> \<open>a total that is divided and printed without more ado\<close>
  "plain_total r = (case r of IntTotal a \<Rightarrow> plain_int a | FloatTotal \<Rightarrow> True)"

definition plain_likes :: "json \<Rightarrow> bool" where
  "plain_likes c = (case py_get c ''likes'' (JInt 0) of Inr (JInt i) \<Rightarrow> plain_int i | _ \<Rightarrow> True)"

definition plain_text :: "json \<Rightarrow> bool" where
  "plain_text c = (case py_get c ''text'' (JStr '''') of Inr (JList xs) \<Rightarrow> False | _ \<Rightarrow> True)"

definition slice_error :: "library \<Rightarrow> json \<Rightarrow> py_error option" where
  \<comment> \<open>what \<open>v[:80]\<close> raises\<close>
  "slice_error lib v =
     (case v of
        JStr s \<Rightarrow> None
      | JList xs \<Rightarrow> None
      | JObj kvs \<Rightarrow> Some (dict_slice_error lib)
      | _ \<Rightarrow> Some TypeError)"

fun print_first :: "library \<Rightarrow> json list \<Rightarrow> py_error option" where
  \<comment> \<open>the lines printed for the comments shown\<close>
  "print_first lib [] = None"
| "print_first lib (c # cs) =
     (case py_get c ''text'' (JStr '''') of
        Inl e \<Rightarrow> Some e
      | Inr t \<Rightarrow> (case slice_error lib t of Some e \<Rightarrow> Some e | None \<Rightarrow> print_first lib cs))"

definition print_summary :: "library \<Rightarrow> json list \<Rightarrow> py_error option" where
  \<comment> \<open>what \<open>_print_summary\<close> raises on \<open>result["comments"]\<close>, if anything\<close>
  "print_summary lib comments =
     (if comments = [] then None
      else
        (case sum_likes (IntTotal 0) comments of
           None \<Rightarrow> summary_other lib comments
         | Some (Inl e) \<Rightarrow> Some e
         | Some (Inr total_likes) \<Rightarrow>
             if plain_total total_likes \<and> list_all plain_likes (take 10 comments) \<and>
                list_all plain_text (take 10 comments)
             then print_first lib (take 10 comments)
             else summary_other lib comments))"

definition plain_comment :: "(string \<times> json) list \<Rightarrow> bool" where
  \<comment> \<open>a normalized comment whose text is a string and whose like count is an integer from 0 up
      to 9223372036854775807\<close>
  "plain_comment c =
     (case (map_of c ''likes'', map_of c ''text'') of
        (Some (JInt i), Some (JStr t)) \<Rightarrow> 0 \<le> i \<and> i < 2 ^ 63
      | _ \<Rightarrow> False)"

datatype scrape_result =
    Invalid_URL
  | Result (res_comments: "json list") (res_pages_loaded: "nat option") (res_success: bool)
  | Raises py_error

definition DouyinAPIScraper_scrape :: "library \<Rightarrow> transport \<Rightarrow> string \<Rightarrow> int option \<Rightarrow> scrape_result" where
  \<comment> \<open>the dict \<open>scrape\<close> returns, or the exception that leaves it; the alternative endpoint's
      result is returned from inside the loop, before the file is written\<close>
  "DouyinAPIScraper_scrape lib get video_url max_comments =
     (let vid = DouyinAPIScraper_extract_video_id video_url in
      if vid = [] then Invalid_URL
      else
        (case douyin_loop lib get vid max_comments [] (JStr ''0'') 0 0 of
           Finished comments pages n \<Rightarrow>
             (case output_write lib comments of
                Some e \<Rightarrow> Raises e
              | None \<Rightarrow>
                  (case print_summary lib comments of
                     Some e \<Rightarrow> Raises e
                   | None \<Rightarrow> Result comments (Some pages) (0 < length comments)))
         | Alternative alt \<Rightarrow> Result alt None True))"

definition douyin_requests :: "library \<Rightarrow> transport \<Rightarrow> string \<Rightarrow> int option \<Rightarrow> nat" where
  \<comment> \<open>how many requests the pagination loop of a run sends to \<open>api_url\<close>\<close>
  "douyin_requests lib get video_url max_comments =
     (case douyin_loop lib get (DouyinAPIScraper_extract_video_id video_url) max_comments
             [] (JStr ''0'') 0 0 of
        Finished comments pages n \<Rightarrow> n
      | Alternative alt \<Rightarrow> 1)"

subsection \<open>\<open>TikTokAPIScraper.scrape_video_comments\<close>\<close>

fun tiktok_parse_each :: "library \<Rightarrow> string \<Rightarrow> Comment list \<Rightarrow> json list \<Rightarrow> Comment list \<times> bool" where
  \<comment> \<open>the \<open>for comment_data\<close> loop: each parsed comment is appended at once, so an exception
      leaves the earlier ones in \<open>comments\<close>; the flag says whether the loop ran to its end\<close>
  "tiktok_parse_each lib vid comments [] = (comments, True)"
| "tiktok_parse_each lib vid comments (x # xs) =
     (case TikTokAPIScraper_parse_comment lib x vid of
        Inl e \<Rightarrow> (comments, False)
      | Inr c \<Rightarrow> tiktok_parse_each lib vid (comments @ [c]) xs)"

datatype tiktok_iteration =
    TNext "Comment list" json
  | TBreak "Comment list"

definition tiktok_api_url :: string where
  "tiktok_api_url = ''https://www.tiktok.com/api/comment/list/''"

definition is_False :: "json \<Rightarrow> bool" where
  \<comment> \<open>\<open>v is False\<close>\<close>
  "is_False v = (v = JBool False)"

definition tiktok_page :: "library \<Rightarrow> transport \<Rightarrow> string \<Rightarrow> Comment list \<Rightarrow> json \<Rightarrow> nat \<Rightarrow> tiktok_iteration" where
  \<comment> \<open>the \<open>try\<close> of the loop body; every exception in it ends the loop\<close>
  "tiktok_page lib get vid comments cursor n =
     (case get tiktok_api_url cursor n of
        Inl e \<Rightarrow> TBreak comments
      | Inr resp \<Rightarrow>
          if status_code resp \<noteq> 200 then TBreak comments
          else
            (case json_of resp of
               Inl e \<Rightarrow> TBreak comments
             | Inr data \<Rightarrow>
                 (case py_get data ''comments'' JNull of
                    Inl e \<Rightarrow> TBreak comments
                  | Inr found \<Rightarrow>
                      if \<not> truthy found then TBreak comments
                      else
                        (case py_iter found of
                           Inl e \<Rightarrow> TBreak comments
                         | Inr items \<Rightarrow>
                             (case tiktok_parse_each lib vid comments items of
                                (comments', False) \<Rightarrow> TBreak comments'
                              | (comments', True) \<Rightarrow>
                                  (case (py_get data ''cursor'' (JStr ''''),
                                         py_get data ''has_more'' (JBool False)) of
                                     (Inr cursor', Inr has_more) \<Rightarrow>
                                       if \<not> truthy cursor' then TBreak comments'
                                       else if is_False has_more then TBreak comments'
                                       else TNext comments' cursor'
                                   | _ \<Rightarrow> TBreak comments'))))))"

fun tiktok_loop :: "nat \<Rightarrow> library \<Rightarrow> transport \<Rightarrow> string \<Rightarrow> int option \<Rightarrow> Comment list \<Rightarrow> json \<Rightarrow> nat \<Rightarrow> (Comment list \<times> nat) option" where
  \<comment> \<open>\<open>while True\<close>, run for at most \<open>fuel\<close> passes: \<open>None\<close> when the loop is still running
      after them, else the comments returned and the number of requests sent\<close>
  "tiktok_loop 0 lib get vid max_comments comments cursor n = None"
| "tiktok_loop (Suc fuel) lib get vid max_comments comments cursor n =
     (if cap_reached max_comments (length comments) then Some (comments, n)
      else
        (case tiktok_page lib get vid comments cursor n of
           TNext comments' cursor' \<Rightarrow>
             tiktok_loop fuel lib get vid max_comments comments' cursor' (Suc n)
         | TBreak comments' \<Rightarrow> Some (comments', Suc n)))"

definition TikTokAPIScraper_scrape_video_comments :: "nat \<Rightarrow> library \<Rightarrow> transport \<Rightarrow> string \<Rightarrow> int option \<Rightarrow> (py_error + Comment list \<times> nat) option" where
  "TikTokAPIScraper_scrape_video_comments fuel lib get video_url max_comments =
     (case TikTokAPIScraper_extract_video_id video_url of
        Inl e \<Rightarrow> Some (Inl e)
      | Inr vid \<Rightarrow>
          (case tiktok_loop fuel lib get vid max_comments [] (JStr ''0'') 0 of
             None \<Rightarrow> None
           | Some r \<Rightarrow> Some (Inr r)))"


section \<open>Acquisition strategy, rendered-page variant\<close>

text \<open>
  The page is what the browser shows in each round: whether scrolling raised, the value
  \<open>page.evaluate\<close> returned (or the exception of \<open>page.content\<close> or \<open>page.evaluate\<close>), and
  \<open>page.url\<close>. Waiting between rounds is not modelled.
\<close>

record page_round =
  scroll_raises :: bool
  evaluated :: "py_error + json"
  page_url :: string

definition py_hash :: "library \<Rightarrow> json \<Rightarrow> py_error + 64 word" where
  \<comment> \<open>\<open>hash(v)\<close>: lists and dicts are unhashable\<close>
  "py_hash lib v =
     (case v of
        JStr s \<Rightarrow> Inr (hash_str lib s)
      | JList xs \<Rightarrow> Inl TypeError
      | JObj kvs \<Rightarrow> Inl TypeError
      | _ \<Rightarrow> Inr (hash_other lib v))"

subsection \<open>\<open>TikTokScraper._extract_comments\<close> and \<open>scrape_video_comments\<close>\<close>

definition tiktok_dom_comment :: "library \<Rightarrow> string \<Rightarrow> string \<Rightarrow> json \<Rightarrow> py_error + Comment" where
  \<comment> \<open>the statements of the \<open>for\<close> body after the identifier test\<close>
  "tiktok_dom_comment lib vid cid data =
     bindE (py_get data ''author'' (JStr ''anonymous'')) (\<lambda>uname.
     bindE (py_get data ''author'' (JStr '''')) (\<lambda>hashed.
     bindE (py_hash lib hashed) (\<lambda>h.
     bindE (new_CommentAuthor lib
              \<lparr>a_username = uname, a_display_name = JNull,
               a_user_id = ''user_'' @ str_of_int (sint h mod 1000000),
               a_avatar_url = JNull\<rparr>) (\<lambda>auth.
     bindE (py_get data ''text'' (JStr '''')) (\<lambda>txt.
     bindE (py_get data ''likes'' (JInt 0)) (\<lambda>likes.
     new_Comment lib
       \<lparr>c_comment_id = JStr cid, c_video_id = vid, c_text = txt, c_author = auth,
        c_like_count = likes, c_reply_count = JInt 0, c_parent_comment_id = JNull,
        c_created_at = Now, c_is_pinned = JBool False\<rparr>))))))"

fun tiktok_extract_each :: "library \<Rightarrow> string \<Rightarrow> Comment list \<Rightarrow> nat \<Rightarrow> json list \<Rightarrow> Comment list \<Rightarrow> Comment list" where
  \<comment> \<open>the \<open>for idx, data in enumerate(comment_data)\<close> loop from position \<open>idx\<close> on;
      an exception ends it and what was appended to \<open>new_comments\<close> is returned\<close>
  "tiktok_extract_each lib vid existing idx [] new_comments = new_comments"
| "tiktok_extract_each lib vid existing idx (data # rest) new_comments =
     (let cid = vid @ ''_comment_'' @ str_of_nat (length existing + idx) in
      if list_ex (\<lambda>c. comment_id c = cid) existing
      then tiktok_extract_each lib vid existing (Suc idx) rest new_comments
      else
        (case tiktok_dom_comment lib vid cid data of
           Inl e \<Rightarrow> new_comments
         | Inr c \<Rightarrow> tiktok_extract_each lib vid existing (Suc idx) rest (new_comments @ [c])))"

definition TikTokScraper_extract_comments :: "library \<Rightarrow> page_round \<Rightarrow> Comment list \<Rightarrow> Comment list" where
  "TikTokScraper_extract_comments lib page existing_comments =
     (case evaluated page of
        Inl e \<Rightarrow> []
      | Inr comment_data \<Rightarrow>
          (case py_iter comment_data of
             Inl e \<Rightarrow> []
           | Inr items \<Rightarrow>
               tiktok_extract_each lib (TikTokScraper_extract_video_id (page_url page))
                 existing_comments 0 items []))"

definition max_consecutive :: nat where
  "max_consecutive = 5"

fun tiktok_scroll_loop :: "nat \<Rightarrow> library \<Rightarrow> (nat \<Rightarrow> page_round) \<Rightarrow> int option \<Rightarrow> Comment list \<Rightarrow> nat \<Rightarrow> nat \<Rightarrow> (py_error + Comment list) option" where
  \<comment> \<open>\<open>while True\<close> of \<open>TikTokScraper.scrape_video_comments\<close>, run for at most \<open>fuel\<close> rounds;
      an exception outside \<open>_extract_comments\<close> is re-raised as \<open>RuntimeError\<close>\<close>
  "tiktok_scroll_loop 0 lib page max_comments comments consecutive_no_new round = None"
| "tiktok_scroll_loop (Suc fuel) lib page max_comments comments consecutive_no_new round =
     (if cap_reached max_comments (length comments) then Some (Inr comments)
      else if scroll_raises (page round) then Some (Inl RuntimeError)
      else
        (let new_comments = TikTokScraper_extract_comments lib (page round) comments;
             comments' = comments @ new_comments
         in if length new_comments = 0
            then (if max_consecutive \<le> Suc consecutive_no_new then Some (Inr comments')
                  else tiktok_scroll_loop fuel lib page max_comments comments'
                         (Suc consecutive_no_new) (Suc round))
            else tiktok_scroll_loop fuel lib page max_comments comments' 0 (Suc round)))"

definition TikTokScraper_scrape_video_comments :: "nat \<Rightarrow> library \<Rightarrow> (nat \<Rightarrow> page_round) \<Rightarrow> int option \<Rightarrow> (py_error + Comment list) option" where
  \<comment> \<open>from \<open>comments = []\<close> on; opening the page and the first navigation come before\<close>
  "TikTokScraper_scrape_video_comments fuel lib page max_comments =
     tiktok_scroll_loop fuel lib page max_comments [] 0 0"

subsection \<open>\<open>DouyinScraperPro._extract_comments_advanced\<close> and the scroll loop of \<open>scrape\<close>\<close>

definition py_isspace :: "char \<Rightarrow> bool" where
  \<comment> \<open>the code points below 256 for which \<open>str.isspace\<close> holds\<close>
  "py_isspace c = (of_char c \<in> {9, 10, 11, 12, 13, 28, 29, 30, 31, 32, 133, 160 :: nat})"

definition py_strip :: "string \<Rightarrow> string" where
  \<comment> \<open>\<open>s.strip()\<close>\<close>
  "py_strip s = rev (dropWhile py_isspace (rev (dropWhile py_isspace s)))"

fun douyin_pro_each :: "library \<Rightarrow> json list \<Rightarrow> 64 word set \<Rightarrow> json list \<Rightarrow> json list \<times> 64 word set" where
  \<comment> \<open>the \<open>for comment_data in all_text_content\<close> loop: \<open>seen\<close> is \<open>self.seen_hashes\<close>,
      the list is \<open>new_comments\<close>; an exception ends the loop and both are kept\<close>
  "douyin_pro_each lib [] seen new_comments = (new_comments, seen)"
| "douyin_pro_each lib (comment_data # rest) seen new_comments =
     (case py_get comment_data ''text'' (JStr '''') of
        Inl e \<Rightarrow> (new_comments, seen)
      | Inr (JStr raw) \<Rightarrow>
          (let txt = py_strip raw in
           if txt = [] \<or> length txt < 2 then douyin_pro_each lib rest seen new_comments
           else if hash_str lib txt \<in> seen then douyin_pro_each lib rest seen new_comments
           else
             (case (py_get comment_data ''likes'' (JInt 0),
                    py_get comment_data ''username'' (JStr ''anonymous'')) of
                (Inr likes, Inr uname) \<Rightarrow>
                  douyin_pro_each lib rest (insert (hash_str lib txt) seen)
                    (new_comments @
                       [JObj [(''text'', JStr txt), (''likes'', likes), (''username'', uname),
                              (''timestamp'', JStr (now_iso lib))]])
              | _ \<Rightarrow> (new_comments, insert (hash_str lib txt) seen)))
      | Inr other \<Rightarrow> (new_comments, seen))"

definition DouyinScraperPro_extract_comments_advanced :: "library \<Rightarrow> py_error + json \<Rightarrow> 64 word set \<Rightarrow> json list \<times> 64 word set" where
  "DouyinScraperPro_extract_comments_advanced lib page_result seen =
     (case page_result of
        Inl e \<Rightarrow> ([], seen)
      | Inr all_text_content \<Rightarrow>
          (case py_iter all_text_content of
             Inl e \<Rightarrow> ([], seen)
           | Inr items \<Rightarrow> douyin_pro_each lib items seen []))"

definition max_scrolls :: nat where
  "max_scrolls = 100"

function douyin_pro_loop :: "library \<Rightarrow> (nat \<Rightarrow> py_error + json) \<Rightarrow> int option \<Rightarrow> json list \<Rightarrow> 64 word set \<Rightarrow> nat \<Rightarrow> nat \<Rightarrow> json list \<times> 64 word set" where
  \<comment> \<open>\<open>while scroll_attempts < max_scrolls\<close>; \<open>comments\<close> is \<open>self.comments\<close>\<close>
  "douyin_pro_loop lib page max_comments comments seen scroll_attempts consecutive_empty =
     (if scroll_attempts < max_scrolls then
        if cap_reached max_comments (length comments) then (comments, seen)
        else
          (case DouyinScraperPro_extract_comments_advanced lib (page scroll_attempts) seen of
             (new_comments, seen') \<Rightarrow>
               if new_comments \<noteq> []
               then douyin_pro_loop lib page max_comments (comments @ new_comments) seen'
                      (Suc scroll_attempts) 0
               else if 5 \<le> Suc consecutive_empty then (comments, seen')
               else douyin_pro_loop lib page max_comments comments seen'
                      (Suc scroll_attempts) (Suc consecutive_empty))
      else (comments, seen))"
  by pat_completeness auto
termination
  by (relation "measure (\<lambda>(lib, page, max_comments, comments, seen, scroll_attempts, consecutive_empty).
        max_scrolls - scroll_attempts)") auto

definition fingerprint :: "library \<Rightarrow> json \<Rightarrow> 64 word" where
  \<comment> \<open>the hash under which an accumulated comment was recorded: that of its text\<close>
  "fingerprint lib c =
     (case c of
        JObj kvs \<Rightarrow> (case map_of kvs ''text'' of Some (JStr t) \<Rightarrow> hash_str lib t | _ \<Rightarrow> 0)
      | _ \<Rightarrow> 0)"

section \<open>Sentiment analysis adapter\<close>






definition json_ws :: "char \<Rightarrow> bool" where
  \<comment> \<open>the whitespace of the JSON grammar: space, tab, line feed, carriage return\<close>
  "json_ws c = (c = CHR '' '' \<or> c = CHR 0x09 \<or> c = CHR 0x0A \<or> c = CHR 0x0D)"

definition json_trim :: "string \<Rightarrow> string" where
  "json_trim s = rev (dropWhile json_ws (rev (dropWhile json_ws s)))"





section \<open>Command-line entry point of \<open>douyin_api.py\<close>\<close>






section \<open>Concrete inputs\<close>

text \<open>
  A library instance for evaluating the scrapers on concrete inputs. Whatever the definitions above
  leave to the library is refused: constructor arguments that are neither of the declared type nor
  a short numeral for an integer field, and timestamps outside the plain range. The hash of a string
  is its length, \<open>int()\<close> reads plain decimal numerals, the JSON decoder is a stand-in, the output
  file can be written, and the summary raises where it is left to the library.
\<close>

definition mock_loads :: "string \<Rightarrow> py_error + json" where
  \<comment> \<open>a stand-in decoder that knows two documents, whatever JSON whitespace surrounds them\<close>
  \<open>mock_loads s =
     (if json_trim s = ''{}'' then Inr (JObj [])
      else if json_trim s = ''{"sentiment": "positive"}''
      then Inr (JObj [(''sentiment'', JStr ''positive'')])
      else Inl JSONDecodeError)\<close>

definition strict_library :: library where
  "strict_library =
     \<lparr>repr = (\<lambda>v. ''<repr>''),
      now_iso = ''2024-01-01T00:00:00'',
      hash_str = (\<lambda>s. of_nat (length s)),
      hash_other = (\<lambda>v. 0),
      json_loads = mock_loads,
      py_int = decimal,
      fromtimestamp_other = (\<lambda>v. Inl ValueError),
      lax_author = (\<lambda>a. Inl ValidationError),
      lax_comment = (\<lambda>c. Inl ValidationError),
      output_write = (\<lambda>comments. None),
      summary_other = (\<lambda>comments. Some OtherError),
      dict_slice_error = TypeError\<rparr>"

definition vendor_record :: "string \<Rightarrow> string \<Rightarrow> json" where
  \<comment> \<open>a raw comment record with a vendor-assigned id\<close>
  "vendor_record cid txt =
     JObj [(''cid'', JStr cid), (''text'', JStr txt),
           (''user'', JObj [(''uid'', JStr ''1''), (''unique_id'', JStr ''u1'')]),
           (''create_time'', JInt 1672531200)]"

definition anonymous_record :: "string \<Rightarrow> json" where
  \<comment> \<open>a raw comment record without a vendor-assigned id\<close>
  "anonymous_record txt =
     JObj [(''text'', JStr txt),
           (''user'', JObj [(''uid'', JStr ''1''), (''unique_id'', JStr ''u1'')]),
           (''create_time'', JInt 1672531200)]"

definition douyin_body :: "json list \<Rightarrow> json \<Rightarrow> json" where
  "douyin_body records cursor = JObj [(''aweme_comments'', JList records), (''cursor'', cursor)]"

definition tiktok_body :: "json list \<Rightarrow> json \<Rightarrow> json" where
  \<comment> \<open>a page without a \<open>has_more\<close> field\<close>
  "tiktok_body records cursor = JObj [(''comments'', JList records), (''cursor'', cursor)]"

definition tiktok_body_more :: "json list \<Rightarrow> json \<Rightarrow> json \<Rightarrow> json" where
  "tiktok_body_more records cursor has_more =
     JObj [(''comments'', JList records), (''cursor'', cursor), (''has_more'', has_more)]"

definition serve :: "json list \<Rightarrow> transport" where
  \<comment> \<open>a mock vendor: the n-th request is answered with the n-th page, status 200; once the
      pages are used up the client raises\<close>
  "serve pages url cursor n =
     (if n < length pages then Inr (Response 200 (Inr (pages ! n))) else Inl OtherError)"

definition endless :: "json \<Rightarrow> transport" where
  \<comment> \<open>a vendor that answers every request with the same page\<close>
  "endless page url cursor n = Inr (Response 200 (Inr page))"

definition douyin_normalized :: "string \<Rightarrow> string \<Rightarrow> string \<Rightarrow> (string \<times> json) list" where
  \<comment> \<open>the dict the Douyin normalizer makes of \<open>vendor_record cid txt\<close> under \<open>strict_library\<close>\<close>
  "douyin_normalized vid cid txt =
     [(''comment_id'', JStr cid), (''video_id'', JStr vid), (''text'', JStr txt),
      (''username'', JStr ''u1''), (''likes'', JInt 0),
      (''timestamp'', JStr ''2024-01-01T00:00:00''), (''user_id'', JStr ''1'')]"

definition tiktok_normalized :: "string \<Rightarrow> string \<Rightarrow> string \<Rightarrow> Comment" where
  \<comment> \<open>the \<open>Comment\<close> the TikTok normalizer makes of \<open>vendor_record cid txt\<close>\<close>
  "tiktok_normalized vid cid txt =
     \<lparr>comment_id = cid, video_id = vid, text_field = txt,
      author = \<lparr>username = ''u1'', display_name = None, avatar_url = Some [], user_id = ''1''\<rparr>,
      like_count = 0, reply_count = 0, parent_comment_id = None,
      created_at = Epoch 1672531200, is_pinned = False, sentiment = None\<rparr>"

definition static_page :: "json \<Rightarrow> string \<Rightarrow> nat \<Rightarrow> page_round" where
  \<comment> \<open>a page that shows the same elements in every round and scrolls without error\<close>
  "static_page shown url round = \<lparr>scroll_raises = False, evaluated = Inr shown, page_url = url\<rparr>"

definition dom_record :: "string \<Rightarrow> string \<Rightarrow> int \<Rightarrow> json" where
  \<comment> \<open>an element as the page script reports it\<close>
  "dom_record txt who likes = JObj [(''text'', JStr txt), (''author'', JStr who), (''likes'', JInt likes)]"

section \<open>Properties of the resolver\<close>


lemma startswith_iff: "startswith s p \<longleftrightarrow> (\<exists>r. s = p @ r)"
  by (induction s p rule: startswith.induct) auto

lemma py_in_iff: "py_in sub s \<longleftrightarrow> (\<exists>a b. s = a @ sub @ b)"
proof (induction s)
  case Nil then show ?case by auto
next
  case (Cons c cs)
  show ?case
  proof
    assume "py_in sub (c # cs)"
    then consider "startswith (c # cs) sub" | "py_in sub cs" by auto
    then show "\<exists>a b. c # cs = a @ sub @ b"
    proof cases
      case 1 then obtain r where "c # cs = sub @ r" by (auto simp: startswith_iff)
      then have "c # cs = [] @ sub @ r" by simp
      then show ?thesis by blast
    next
      case 2 then obtain a b where "cs = a @ sub @ b" using Cons.IH by auto
      then have "c # cs = (c # a) @ sub @ b" by simp
      then show ?thesis by blast
    qed
  next
    assume "\<exists>a b. c # cs = a @ sub @ b"
    then obtain a b where ab: "c # cs = a @ sub @ b" by auto
    show "py_in sub (c # cs)"
    proof (cases a)
      case Nil
      then have "startswith (c # cs) sub" using ab unfolding startswith_iff by auto
      then show ?thesis by simp
    next
      case (Cons x xs)
      then have "cs = xs @ sub @ b" using ab by simp
      then show ?thesis using Cons.IH by auto
    qed
  qed
qed

lemma split_scan_nonempty: "split_scan sep acc s \<noteq> []"
  by (induction sep acc s rule: split_scan.induct) auto

lemma split_scan_last:
  "sep \<noteq> [] \<Longrightarrow>
   (\<not> py_in sep s \<and> last (split_scan sep acc s) = rev acc @ s) \<or>
   (\<exists>pre rest. s = pre @ sep @ rest \<and> \<not> py_in sep rest \<and> last (split_scan sep acc s) = rest)"
proof (induction sep acc s rule: split_scan.induct)
  case (1 sep acc)
  then show ?case by (cases sep) auto
next
  case (2 sep acc c cs)
  show ?case
  proof (cases "startswith (c # cs) sep")
    case True
    then obtain r where r: "c # cs = sep @ r" by (auto simp: startswith_iff)
    then have d: "drop (length sep) (c # cs) = r" by (metis append_eq_conv_conj)
    from 2(1)[OF _ 2(3)] True 2(3) d
    have IH: "(\<not> py_in sep r \<and> last (split_scan sep [] r) = r) \<or>
       (\<exists>pre rest. r = pre @ sep @ rest \<and> \<not> py_in sep rest \<and> last (split_scan sep [] r) = rest)"
      by simp
    have sc: "split_scan sep acc (c # cs) = rev acc # split_scan sep [] r"
      using True 2(3) d by simp
    have l: "last (split_scan sep acc (c # cs)) = last (split_scan sep [] r)"
      using sc split_scan_nonempty by simp
    from IH show ?thesis
    proof
      assume a: "\<not> py_in sep r \<and> last (split_scan sep [] r) = r"
      have "c # cs = [] @ sep @ r \<and> \<not> py_in sep r \<and> last (split_scan sep acc (c # cs)) = r"
        using r a l by simp
      then show ?thesis by (intro disjI2 exI[of _ "[]"] exI[of _ r])
    next
      assume "\<exists>pre rest. r = pre @ sep @ rest \<and> \<not> py_in sep rest \<and> last (split_scan sep [] r) = rest"
      then obtain pre rest where p: "r = pre @ sep @ rest" "\<not> py_in sep rest" "last (split_scan sep [] r) = rest" by auto
      have "c # cs = (sep @ pre) @ sep @ rest \<and> \<not> py_in sep rest \<and> last (split_scan sep acc (c # cs)) = rest"
        using r p l by simp
      then show ?thesis by (intro disjI2 exI[of _ "sep @ pre"] exI[of _ rest])
    qed
  next
    case False
    then have sc: "split_scan sep acc (c # cs) = split_scan sep (c # acc) cs" by simp
    from 2(2) False 2(3)
    have IH: "(\<not> py_in sep cs \<and> last (split_scan sep (c # acc) cs) = rev (c # acc) @ cs) \<or>
       (\<exists>pre rest. cs = pre @ sep @ rest \<and> \<not> py_in sep rest \<and> last (split_scan sep (c # acc) cs) = rest)"
      by simp
    from IH show ?thesis
    proof
      assume a: "\<not> py_in sep cs \<and> last (split_scan sep (c # acc) cs) = rev (c # acc) @ cs"
      then show ?thesis using False sc by simp
    next
      assume "\<exists>pre rest. cs = pre @ sep @ rest \<and> \<not> py_in sep rest \<and> last (split_scan sep (c # acc) cs) = rest"
      then obtain pre rest where p: "cs = pre @ sep @ rest" "\<not> py_in sep rest" "last (split_scan sep (c # acc) cs) = rest" by auto
      have "c # cs = (c # pre) @ sep @ rest \<and> \<not> py_in sep rest \<and> last (split_scan sep acc (c # cs)) = rest"
        using p sc by simp
      then show ?thesis by (intro disjI2 exI[of _ "c # pre"] exI[of _ rest])
    qed
  qed
qed

lemma split_scan_hd_single:
  "hd (split_scan [d] acc s) = rev acc @ takeWhile (\<lambda>c. c \<noteq> d) s"
  by (induction s arbitrary: acc) auto

lemma py_index_last: "xs \<noteq> [] \<Longrightarrow> py_index xs (-1) = Inr (last xs)"
  by (cases xs rule: rev_cases) (auto simp: py_index_def nth_append)

lemma py_index_first: "xs \<noteq> [] \<Longrightarrow> py_index xs 0 = Inr (hd xs)"
  by (cases xs) (auto simp: py_index_def)

lemma cut_after:
  "sep \<noteq> [] \<Longrightarrow>
   bindE (py_split url sep) (\<lambda>parts.
   bindE (py_index parts (-1)) (\<lambda>tail.
   bindE (py_split tail [d]) (\<lambda>pieces.
   bindE (py_index pieces 0) (\<lambda>v. Inr (Some v)))))
   = Inr (Some (takeWhile (\<lambda>c. c \<noteq> d) (last (split_scan sep [] url))))"
  by (simp add: py_split_def bindE_def py_index_last py_index_first split_scan_nonempty split_scan_hd_single)


lemma body_modal:
  assumes "py_in ''modal_id='' url"
  shows "extract_video_id_body url =
         Inr (Some (takeWhile (\<lambda>c. c \<noteq> CHR ''&'') (last (split_scan ''modal_id='' [] url))))"
  using assms cut_after[of "''modal_id=''" url "CHR ''&''"]
  by (simp add: extract_video_id_body_def)

lemma body_video:
  assumes "\<not> py_in ''modal_id='' url" "py_in ''/video/'' url"
  shows "extract_video_id_body url =
         Inr (Some (takeWhile (\<lambda>c. c \<noteq> CHR ''?'') (last (split_scan ''/video/'' [] url))))"
  using assms cut_after[of "''/video/''" url "CHR ''?''"]
  by (simp add: extract_video_id_body_def)

lemma body_none:
  assumes "\<not> py_in ''modal_id='' url" "\<not> py_in ''/video/'' url"
  shows "extract_video_id_body url = Inr None"
  using assms by (simp add: extract_video_id_body_def)

lemma last_after_marker:
  assumes "sep \<noteq> []" "py_in sep url"
  shows "\<exists>pre rest. url = pre @ sep @ rest \<and> \<not> py_in sep rest \<and> last (split_scan sep [] url) = rest"
  using split_scan_last[OF assms(1), of url "[]"] assms(2) by auto

text \<open>
  Claim C4. For every URL that contains \<open>modal_id=\<close>, the resolver returns the text that follows
  an occurrence of the marker after which the marker does not occur again, up to the next \<open>&\<close> or
  the end of the URL. For every URL without \<open>modal_id=\<close> that contains \<open>/video/\<close>, it returns
  likewise the text after the marker up to the next \<open>?\<close>. For every other URL it returns the
  sentinel (\<open>""\<close> in the API scraper, \<open>"unknown"\<close> in the rendered-page scraper). No statement
  under \<open>try\<close> raises, for any URL.
\<close>

theorem extract_video_id_resolves:
  "(\<exists>r. extract_video_id_body url = Inr r) \<and>
   (py_in ''modal_id='' url \<longrightarrow>
      (\<exists>pre rest. url = pre @ ''modal_id='' @ rest \<and> \<not> py_in ''modal_id='' rest \<and>
         DouyinAPIScraper_extract_video_id url = takeWhile (\<lambda>c. c \<noteq> CHR ''&'') rest \<and>
         DouyinScraperPro_extract_video_id url = takeWhile (\<lambda>c. c \<noteq> CHR ''&'') rest)) \<and>
   (\<not> py_in ''modal_id='' url \<and> py_in ''/video/'' url \<longrightarrow>
      (\<exists>pre rest. url = pre @ ''/video/'' @ rest \<and> \<not> py_in ''/video/'' rest \<and>
         DouyinAPIScraper_extract_video_id url = takeWhile (\<lambda>c. c \<noteq> CHR ''?'') rest \<and>
         DouyinScraperPro_extract_video_id url = takeWhile (\<lambda>c. c \<noteq> CHR ''?'') rest)) \<and>
   (\<not> py_in ''modal_id='' url \<and> \<not> py_in ''/video/'' url \<longrightarrow>
      DouyinAPIScraper_extract_video_id url = '''' \<and>
      DouyinScraperPro_extract_video_id url = ''unknown'')"
proof (intro conjI impI)
  show "\<exists>r. extract_video_id_body url = Inr r"
    using body_modal[of url] body_video[of url] body_none[of url] by blast
next
  assume m: "py_in ''modal_id='' url"
  obtain pre rest where d: "url = pre @ ''modal_id='' @ rest" "\<not> py_in ''modal_id='' rest"
      "last (split_scan ''modal_id='' [] url) = rest"
    using last_after_marker[OF _ m] by auto
  have "DouyinAPIScraper_extract_video_id url = takeWhile (\<lambda>c. c \<noteq> CHR ''&'') rest"
       "DouyinScraperPro_extract_video_id url = takeWhile (\<lambda>c. c \<noteq> CHR ''&'') rest"
    using body_modal[OF m] d(3)
    by (simp_all add: DouyinAPIScraper_extract_video_id_def DouyinScraperPro_extract_video_id_def
        extract_video_id_with_def)
  with d(1,2) show "\<exists>pre rest. url = pre @ ''modal_id='' @ rest \<and> \<not> py_in ''modal_id='' rest \<and>
         DouyinAPIScraper_extract_video_id url = takeWhile (\<lambda>c. c \<noteq> CHR ''&'') rest \<and>
         DouyinScraperPro_extract_video_id url = takeWhile (\<lambda>c. c \<noteq> CHR ''&'') rest"
    by blast
next
  assume a: "\<not> py_in ''modal_id='' url \<and> py_in ''/video/'' url"
  obtain pre rest where d: "url = pre @ ''/video/'' @ rest" "\<not> py_in ''/video/'' rest"
      "last (split_scan ''/video/'' [] url) = rest"
    using last_after_marker[of "''/video/''" url] a by auto
  have "DouyinAPIScraper_extract_video_id url = takeWhile (\<lambda>c. c \<noteq> CHR ''?'') rest"
       "DouyinScraperPro_extract_video_id url = takeWhile (\<lambda>c. c \<noteq> CHR ''?'') rest"
    using body_video[of url] a d(3)
    by (simp_all add: DouyinAPIScraper_extract_video_id_def DouyinScraperPro_extract_video_id_def
        extract_video_id_with_def)
  with d(1,2) show "\<exists>pre rest. url = pre @ ''/video/'' @ rest \<and> \<not> py_in ''/video/'' rest \<and>
         DouyinAPIScraper_extract_video_id url = takeWhile (\<lambda>c. c \<noteq> CHR ''?'') rest \<and>
         DouyinScraperPro_extract_video_id url = takeWhile (\<lambda>c. c \<noteq> CHR ''?'') rest"
    by blast
next
  assume a: "\<not> py_in ''modal_id='' url \<and> \<not> py_in ''/video/'' url"
  then show "DouyinAPIScraper_extract_video_id url = ''''"
    using body_none[of url]
    by (simp add: DouyinAPIScraper_extract_video_id_def extract_video_id_with_def)
next
  assume a: "\<not> py_in ''modal_id='' url \<and> \<not> py_in ''/video/'' url"
  then show "DouyinScraperPro_extract_video_id url = ''unknown''"
    using body_none[of url]
    by (simp add: DouyinScraperPro_extract_video_id_def extract_video_id_with_def)
qed

theorem extract_video_id_resolves_witness:
  "py_in ''modal_id='' ''https://www.douyin.com/user/u1?modal_id=7597&from=web'' \<and>
   (\<exists>pre rest. ''https://www.douyin.com/user/u1?modal_id=7597&from=web'' = pre @ ''modal_id='' @ rest \<and>
      \<not> py_in ''modal_id='' rest \<and>
      DouyinAPIScraper_extract_video_id ''https://www.douyin.com/user/u1?modal_id=7597&from=web''
        = takeWhile (\<lambda>c. c \<noteq> CHR ''&'') rest) \<and>
   DouyinAPIScraper_extract_video_id ''https://www.douyin.com/user/u1?modal_id=7597&from=web'' = ''7597'' \<and>
   \<not> py_in ''modal_id='' ''https://www.douyin.com/video/123?x=1'' \<and>
   py_in ''/video/'' ''https://www.douyin.com/video/123?x=1'' \<and>
   (\<exists>pre rest. ''https://www.douyin.com/video/123?x=1'' = pre @ ''/video/'' @ rest \<and>
      \<not> py_in ''/video/'' rest \<and>
      DouyinScraperPro_extract_video_id ''https://www.douyin.com/video/123?x=1''
        = takeWhile (\<lambda>c. c \<noteq> CHR ''?'') rest) \<and>
   DouyinScraperPro_extract_video_id ''https://www.douyin.com/video/123?x=1'' = ''123'' \<and>
   \<not> py_in ''modal_id='' ''https://example.com/page'' \<and>
   \<not> py_in ''/video/'' ''https://example.com/page'' \<and>
   DouyinAPIScraper_extract_video_id ''https://example.com/page'' = '''' \<and>
   DouyinScraperPro_extract_video_id ''https://example.com/page'' = ''unknown''"
proof -
  have a: "py_in ''modal_id='' ''https://www.douyin.com/user/u1?modal_id=7597&from=web''" by simp
  have b: "\<not> py_in ''modal_id='' ''https://www.douyin.com/video/123?x=1'' \<and>
           py_in ''/video/'' ''https://www.douyin.com/video/123?x=1''" by simp
  have c: "\<not> py_in ''modal_id='' ''https://example.com/page'' \<and>
           \<not> py_in ''/video/'' ''https://example.com/page''" by simp
  have e1: "DouyinAPIScraper_extract_video_id ''https://www.douyin.com/user/u1?modal_id=7597&from=web'' = ''7597''"
    by (simp add: DouyinAPIScraper_extract_video_id_def extract_video_id_with_def
        extract_video_id_body_def py_split_def bindE_def py_index_def)
  have e2: "DouyinScraperPro_extract_video_id ''https://www.douyin.com/video/123?x=1'' = ''123''"
    by (simp add: DouyinScraperPro_extract_video_id_def extract_video_id_with_def
        extract_video_id_body_def py_split_def bindE_def py_index_def)
  from extract_video_id_resolves[of "''https://www.douyin.com/user/u1?modal_id=7597&from=web''"] a
  have r1: "\<exists>pre rest. ''https://www.douyin.com/user/u1?modal_id=7597&from=web'' = pre @ ''modal_id='' @ rest \<and>
      \<not> py_in ''modal_id='' rest \<and>
      DouyinAPIScraper_extract_video_id ''https://www.douyin.com/user/u1?modal_id=7597&from=web''
        = takeWhile (\<lambda>c. c \<noteq> CHR ''&'') rest" by blast
  from extract_video_id_resolves[of "''https://www.douyin.com/video/123?x=1''"] b
  have r2: "\<exists>pre rest. ''https://www.douyin.com/video/123?x=1'' = pre @ ''/video/'' @ rest \<and>
      \<not> py_in ''/video/'' rest \<and>
      DouyinScraperPro_extract_video_id ''https://www.douyin.com/video/123?x=1''
        = takeWhile (\<lambda>c. c \<noteq> CHR ''?'') rest" by blast
  from extract_video_id_resolves[of "''https://example.com/page''"] c
  have r3: "DouyinAPIScraper_extract_video_id ''https://example.com/page'' = '''' \<and>
   DouyinScraperPro_extract_video_id ''https://example.com/page'' = ''unknown''" by blast
  show ?thesis using a b c e1 e2 r1 r2 r3 by blast
qed



section \<open>Properties of the API normalizers\<close>

lemma bindE_Inr [simp]: "bindE (Inr x) f = f x"
  by (simp add: bindE_def)

lemma bindE_Inl [simp]: "bindE (Inl e) f = Inl e"
  by (simp add: bindE_def)

lemma bindE_eq_Inr: "bindE m f = Inr y \<longleftrightarrow> (\<exists>x. m = Inr x \<and> f x = Inr y)"
  by (cases m) auto

lemma py_get_obj [simp]: "py_get (JObj kvs) k d = Inr (dict_get kvs k d)"
  by (simp add: py_get_def)

text \<open>
  Claim C10. A record whose \<open>user.avatar_thumb\<close> is an object with an empty \<open>url_list\<close> makes
  \<open>TikTokAPIScraper._parse_comment\<close> raise \<open>IndexError\<close>, whatever the library does and whatever
  the other fields of the record are.
\<close>

theorem parse_comment_empty_url_list:
  assumes "map_of kvs ''user'' = Some (JObj user)"
    and "map_of user ''avatar_thumb'' = Some (JObj thumb)"
    and "map_of thumb ''url_list'' = Some (JList [])"
  shows "TikTokAPIScraper_parse_comment lib (JObj kvs) vid = Inl IndexError"
  using assms
  by (simp add: TikTokAPIScraper_parse_comment_def dict_get_def py_subscript0_def py_index_def)

theorem parse_comment_empty_url_list_witness:
  "map_of [(''cid'', JStr ''c1''), (''text'', JStr ''hi''),
           (''user'', JObj [(''uid'', JStr ''1''), (''unique_id'', JStr ''u1''),
                            (''avatar_thumb'', JObj [(''url_list'', JList [])])])] ''user''
     = Some (JObj [(''uid'', JStr ''1''), (''unique_id'', JStr ''u1''),
                   (''avatar_thumb'', JObj [(''url_list'', JList [])])]) \<and>
   map_of [(''uid'', JStr ''1''), (''unique_id'', JStr ''u1''),
           (''avatar_thumb'', JObj [(''url_list'', JList [])])] ''avatar_thumb''
     = Some (JObj [(''url_list'', JList [])]) \<and>
   map_of [(''url_list'', JList [])] ''url_list'' = Some (JList []) \<and>
   TikTokAPIScraper_parse_comment strict_library
     (JObj [(''cid'', JStr ''c1''), (''text'', JStr ''hi''),
            (''user'', JObj [(''uid'', JStr ''1''), (''unique_id'', JStr ''u1''),
                             (''avatar_thumb'', JObj [(''url_list'', JList [])])])]) ''v1''
     = Inl IndexError"
proof -
  have a: "map_of [(''cid'', JStr ''c1''), (''text'', JStr ''hi''),
           (''user'', JObj [(''uid'', JStr ''1''), (''unique_id'', JStr ''u1''),
                            (''avatar_thumb'', JObj [(''url_list'', JList [])])])] ''user''
     = Some (JObj [(''uid'', JStr ''1''), (''unique_id'', JStr ''u1''),
                   (''avatar_thumb'', JObj [(''url_list'', JList [])])])" by simp
  have b: "map_of [(''uid'', JStr ''1''), (''unique_id'', JStr ''u1''),
           (''avatar_thumb'', JObj [(''url_list'', JList [])])] ''avatar_thumb''
     = Some (JObj [(''url_list'', JList [])])" by simp
  have c: "map_of [(''url_list'', JList [])] ''url_list'' = Some (JList [])" by simp
  from parse_comment_empty_url_list[OF a b c, of strict_library "''v1''"] a b c
  show ?thesis by blast
qed

text \<open>
  Claim C6 fails on the code of the Douyin normalizer. Under the comment \<open># Parse likes\<close> it
  copies the value of \<open>digg_count\<close> as it is: given as the string \<open>"12"\<close>, the like count of
  the normalized comment is that string, not the integer 12, and the unparseable string
  \<open>"many"\<close> is kept as well, not replaced by 0.
\<close>

theorem likes_string_not_parsed:
  "DouyinAPIScraper_parse_comments strict_library
     (JList [JObj [(''text'', JStr ''hi''), (''digg_count'', JStr ''12'')],
             JObj [(''text'', JStr ''ho''), (''digg_count'', JStr ''many'')]]) ''v1''
   = Inr [JObj [(''comment_id'', JStr ''v1_0''), (''video_id'', JStr ''v1''),
                (''text'', JStr ''hi''), (''username'', JStr []), (''likes'', JStr ''12''),
                (''timestamp'', JStr ''2024-01-01T00:00:00''), (''user_id'', JStr [])],
          JObj [(''comment_id'', JStr ''v1_1''), (''video_id'', JStr ''v1''),
                (''text'', JStr ''ho''), (''username'', JStr []), (''likes'', JStr ''many''),
                (''timestamp'', JStr ''2024-01-01T00:00:00''), (''user_id'', JStr [])]]"
  by code_simp

lemma douyin_record_likes:
  assumes "douyin_record lib vid idx (JObj kvs) txt = Inr c"
  shows "map_of c ''likes'' = Some (dict_get kvs ''digg_count'' (dict_get kvs ''like_count'' (JInt 0)))"
  using assms unfolding douyin_record_def
  by (auto simp: bindE_eq_Inr)

lemma douyin_parse_one_likes:
  assumes "douyin_parse_one lib vid idx (JObj kvs) = Inr (Some c)"
  shows "map_of c ''likes'' = Some (dict_get kvs ''digg_count'' (dict_get kvs ''like_count'' (JInt 0)))"
proof -
  from assms obtain t where "douyin_record lib vid idx (JObj kvs) t = Inr c"
    unfolding douyin_parse_one_def Let_def
    by (auto simp: bindE_eq_Inr split: if_splits)
  then show ?thesis by (rule douyin_record_likes)
qed

text \<open>
  The TikTok normalizer hands \<open>digg_count\<close> to the \<open>Comment\<close> constructor, whose integer field
  reads the numeral: on such a record the like count is the integer 12, whatever the library does
  elsewhere.
\<close>

lemma tiktok_reads_string_likes:
  "map_sum id like_count
     (TikTokAPIScraper_parse_comment lib
        (JObj [(''cid'', JStr ''c1''), (''text'', JStr ''hi''),
               (''user'', JObj [(''uid'', JStr ''1''), (''unique_id'', JStr ''u1'')]),
               (''digg_count'', JStr ''12''), (''create_time'', JInt 1672531200)]) vid)
   = Inr 12"
  by code_simp

text \<open>
  The summary that \<open>DouyinAPIScraper.scrape\<close> prints before it returns adds the like counts up.
  With the string kept, the addition raises \<open>TypeError\<close> outside every handler of \<open>scrape\<close>:
  the run that captured the comment ends with the exception instead of the result.
\<close>

lemma string_likes_stop_scrape:
  "DouyinAPIScraper_scrape strict_library
     (serve [douyin_body [JObj [(''text'', JStr ''hi''), (''digg_count'', JStr ''12'')]] (JStr '''')])
     ''https://www.douyin.com/video/7'' None
   = Raises TypeError"
  by code_simp

section \<open>Properties of the API acquisition strategy\<close>

text \<open>
  Claim C8 fails on the code. The vendor serves two pages with one record each, neither record
  carrying \<open>cid\<close>. The identifier is synthesized from the position of the record in its own
  page, so both comments of the run get \<open>7_0\<close>.
\<close>

theorem synthesized_ids_collide:
  "map (\<lambda>c. py_get c ''comment_id'' JNull)
     (res_comments (DouyinAPIScraper_scrape strict_library
        (serve [douyin_body [anonymous_record ''one''] (JStr ''c1''),
                douyin_body [anonymous_record ''two''] (JStr '''')])
        ''https://www.douyin.com/video/7'' None))
   = [Inr (JStr ''7_0''), Inr (JStr ''7_0'')]"
  by code_simp

text \<open>
  Claim C1 fails on the code. With a cap of one comment and a first page of two records, both API
  scrapers return two comments: the cap is tested before a page is requested, and the page is
  appended whole.
\<close>

theorem cap_exceeded_by_page:
  "map (\<lambda>c. py_get c ''comment_id'' JNull)
     (res_comments (DouyinAPIScraper_scrape strict_library
        (serve [douyin_body [vendor_record ''a'' ''one'', vendor_record ''b'' ''two''] (JStr '''')])
        ''https://www.douyin.com/video/7'' (Some 1)))
   = [Inr (JStr ''a''), Inr (JStr ''b'')] \<and>
   map_option (map_sum id (\<lambda>r. (map comment_id (fst r), snd r)))
     (TikTokAPIScraper_scrape_video_comments 3 strict_library
        (serve [tiktok_body [vendor_record ''a'' ''one'', vendor_record ''b'' ''two''] (JStr '''')])
        ''https://www.tiktok.com/@u/video/7'' (Some 1))
   = Some (Inr ([''a'', ''b''], 1))"
  by code_simp



lemma douyin_loop_requests:
  "douyin_loop lib get vid max_comments comments cursor page_count n = Finished cs p k
   \<Longrightarrow> k \<le> n + (max_pages - page_count)"
proof (induction lib get vid max_comments comments cursor page_count n
       rule: douyin_loop.induct)
  case (1 lib get vid max_comments comments cursor page_count n)
  show ?case
  proof (cases "page_count < max_pages")
    case False
    with "1.prems" show ?thesis by simp
  next
    case lt: True
    show ?thesis
    proof (cases "cap_reached max_comments (length comments)")
      case True
      with lt "1.prems" show ?thesis by simp
    next
      case nc: False
      show ?thesis
      proof (cases "douyin_page lib get vid comments cursor page_count n")
        case (Next comments' cursor')
        with lt nc "1.prems"
        have "douyin_loop lib get vid max_comments comments' cursor' (Suc page_count) (Suc n)
              = Finished cs p k" by simp
        from "1.IH"[OF lt nc Next this] lt show ?thesis by simp
      next
        case (Break comments')
        with lt nc "1.prems" show ?thesis by auto
      next
        case (Return alt)
        with lt nc "1.prems" show ?thesis by simp
      qed
    qed
  qed
qed

lemma douyin_requests_bounded: "douyin_requests lib get video_url max_comments \<le> max_pages"
proof (cases "douyin_loop lib get (DouyinAPIScraper_extract_video_id video_url) max_comments
               [] (JStr ''0'') 0 0")
  case (Finished cs p k)
  from douyin_loop_requests[OF this] Finished show ?thesis
    by (simp add: douyin_requests_def)
next
  case (Alternative alt)
  then show ?thesis by (simp add: douyin_requests_def max_pages_def)
qed

lemma parse_record_a:
  "TikTokAPIScraper_parse_comment strict_library (vendor_record ''a'' ''one'') ''7''
   = Inr \<lparr>comment_id = ''a'', video_id = ''7'', text_field = ''one'',
          author = \<lparr>username = ''u1'', display_name = None, avatar_url = Some [],
                    user_id = ''1''\<rparr>,
          like_count = 0, reply_count = 0, parent_comment_id = None,
          created_at = Epoch 1672531200, is_pinned = False, sentiment = None\<rparr>"
  by code_simp

lemma endless_page_continues:
  "\<exists>c. tiktok_page strict_library
          (endless (tiktok_body_more [vendor_record ''a'' ''one''] (JStr ''c1'') (JBool True)))
          ''7'' comments cursor n
        = TNext (comments @ [c]) (JStr ''c1'')"
  by (simp add: tiktok_page_def endless_def tiktok_body_more_def dict_get_def py_iter_def
      parse_record_a is_False_def)

lemma endless_loop_runs_on:
  "tiktok_loop fuel strict_library
     (endless (tiktok_body_more [vendor_record ''a'' ''one''] (JStr ''c1'') (JBool True)))
     ''7'' None comments cursor n = None"
proof (induction fuel arbitrary: comments cursor n)
  case 0
  show ?case by simp
next
  case (Suc fuel)
  obtain c where "tiktok_page strict_library
          (endless (tiktok_body_more [vendor_record ''a'' ''one''] (JStr ''c1'') (JBool True)))
          ''7'' comments cursor n = TNext (comments @ [c]) (JStr ''c1'')"
    using endless_page_continues by blast
  then show ?case using Suc.IH by (simp add: cap_reached_def)
qed

lemma video_7: "TikTokAPIScraper_extract_video_id ''https://www.tiktok.com/@u/video/7'' = Inr ''7''"
  by code_simp

text \<open>
  Claim C2 fails on the code of the TikTok API scraper. The pagination loop of
  \<open>DouyinAPIScraper.scrape\<close> sends at most \<open>max_pages\<close> = 50 requests, for every vendor and every
  cap. The loop of \<open>TikTokAPIScraper.scrape_video_comments\<close> is \<open>while True\<close>: against a vendor
  that answers every request with one record, the cursor \<open>c1\<close> and \<open>has_more\<close> true, and with no
  cap, it is still running after any number of passes.
\<close>

theorem tiktok_loop_has_no_ceiling:
  "douyin_requests lib get video_url max_comments \<le> max_pages \<and>
   TikTokAPIScraper_scrape_video_comments fuel strict_library
     (endless (tiktok_body_more [vendor_record ''a'' ''one''] (JStr ''c1'') (JBool True)))
     ''https://www.tiktok.com/@u/video/7'' None = None"
  by (simp add: douyin_requests_bounded TikTokAPIScraper_scrape_video_comments_def video_7
      endless_loop_runs_on)



text \<open>
  Claim C5, as stated, fails on the TikTok API scraper: with page 1 = two records and cursor
  \<open>c1\<close>, page 2 = one record and an empty cursor, and no cap, it returns the two comments of
  page 1 after one request, because page 1 carries no \<open>has_more\<close> field.
\<close>

theorem tiktok_stops_without_has_more:
  "map_option (map_sum id (\<lambda>r. (map comment_id (fst r), snd r)))
     (TikTokAPIScraper_scrape_video_comments 5 strict_library
        (serve [tiktok_body [vendor_record ''a'' ''one'', vendor_record ''b'' ''two''] (JStr ''c1''),
                tiktok_body [vendor_record ''c'' ''three''] (JStr '''')])
        ''https://www.tiktok.com/@u/video/7'' None)
   = Some (Inr ([''a'', ''b''], 1))"
  by code_simp

lemma douyin_two_pages:
  assumes p1: "get api_url (JStr ''0'') 0 = Inr (Response 200 (Inr (douyin_body [r1, r2] (JStr ''c1''))))"
    and p2: "get api_url (JStr ''c1'') 1 = Inr (Response 200 (Inr (douyin_body [r3] (JStr ''''))))"
    and n1: "douyin_parse_one lib vid 0 r1 = Inr (Some c1)"
    and n2: "douyin_parse_one lib vid 1 r2 = Inr (Some c2)"
    and n3: "douyin_parse_one lib vid 0 r3 = Inr (Some c3)"
  shows "douyin_loop lib get vid None [] (JStr ''0'') 0 0 = Finished [JObj c1, JObj c2, JObj c3] 1 2"
proof -
  have a: "douyin_page lib get vid [] (JStr ''0'') 0 0 = Next [JObj c1, JObj c2] (JStr ''c1'')"
    using p1 n1 n2
    by (simp add: douyin_page_def douyin_body_def dict_get_def DouyinAPIScraper_parse_comments_def
        py_iter_def)
  have b: "douyin_page lib get vid [JObj c1, JObj c2] (JStr ''c1'') 1 1
           = Break [JObj c1, JObj c2, JObj c3]"
    using p2 n3
    by (simp add: douyin_page_def douyin_body_def dict_get_def DouyinAPIScraper_parse_comments_def
        py_iter_def)
  have l2: "douyin_loop lib get vid None [JObj c1, JObj c2] (JStr ''c1'') (Suc 0) (Suc 0)
            = Finished [JObj c1, JObj c2, JObj c3] 1 2"
    using b by (subst douyin_loop.simps) (simp add: cap_reached_def max_pages_def)
  show ?thesis
    using a l2 by (subst douyin_loop.simps) (simp add: cap_reached_def max_pages_def)
qed

lemma tiktok_two_pages:
  assumes p1: "get tiktok_api_url (JStr ''0'') 0
               = Inr (Response 200 (Inr (tiktok_body_more [r1, r2] (JStr ''c1'') h)))"
    and h: "h \<noteq> JBool False"
    and p2: "get tiktok_api_url (JStr ''c1'') 1 = Inr (Response 200 (Inr (tiktok_body [r3] (JStr ''''))))"
    and n1: "TikTokAPIScraper_parse_comment lib r1 vid = Inr k1"
    and n2: "TikTokAPIScraper_parse_comment lib r2 vid = Inr k2"
    and n3: "TikTokAPIScraper_parse_comment lib r3 vid = Inr k3"
  shows "tiktok_loop (Suc (Suc fuel)) lib get vid None [] (JStr ''0'') 0 = Some ([k1, k2, k3], 2)"
proof -
  have a: "tiktok_page lib get vid [] (JStr ''0'') 0 = TNext [k1, k2] (JStr ''c1'')"
    using p1 h n1 n2
    by (simp add: tiktok_page_def tiktok_body_more_def dict_get_def py_iter_def is_False_def)
  have b: "tiktok_page lib get vid [k1, k2] (JStr ''c1'') 1 = TBreak [k1, k2, k3]"
    using p2 n3
    by (simp add: tiktok_page_def tiktok_body_def dict_get_def py_iter_def)
  show ?thesis
    using a b by (simp add: cap_reached_def)
qed

lemma small_plain_int:
  assumes "0 \<le> i" and "i < 2 ^ 65"
  shows "plain_int i"
proof -
  have "(2::int) ^ 65 \<le> 2 ^ 1023" by (rule power_increasing) simp_all
  with assms show ?thesis unfolding plain_int_def by (simp only: abs_of_nonneg)
qed

lemma plain_comment_fields:
  assumes "plain_comment c"
  shows "\<exists>i t. map_of c ''likes'' = Some (JInt i) \<and> 0 \<le> i \<and> i < 2 ^ 63 \<and>
               map_of c ''text'' = Some (JStr t)"
proof (cases "map_of c ''likes''")
  case None
  with assms show ?thesis by (simp add: plain_comment_def)
next
  case (Some l)
  note l = this
  show ?thesis
  proof (cases "map_of c ''text''")
    case None
    with assms l show ?thesis by (cases l) (simp_all add: plain_comment_def)
  next
    case (Some t)
    with assms l show ?thesis
      by (cases l; cases t) (simp_all add: plain_comment_def)
  qed
qed

lemma sum_likes_int:
  assumes "map_of c ''likes'' = Some (JInt i)"
  shows "sum_likes (IntTotal a) (JObj c # cs) = sum_likes (IntTotal (a + i)) cs"
  using assms by (simp add: py_get_def dict_get_def add_likes_def)

lemma print_first_str:
  assumes "map_of c ''text'' = Some (JStr t)"
  shows "print_first lib (JObj c # cs) = print_first lib cs"
  using assms by (simp add: py_get_def dict_get_def slice_error_def)

lemma plain_likes_int:
  assumes "map_of c ''likes'' = Some (JInt i)"
  shows "plain_likes (JObj c) = plain_int i"
  using assms by (simp add: plain_likes_def py_get_def dict_get_def)

lemma plain_text_str:
  assumes "map_of c ''text'' = Some (JStr t)"
  shows "plain_text (JObj c)"
  using assms by (simp add: plain_text_def py_get_def dict_get_def)

lemma three_plain_comments:
  assumes "plain_comment c1" and "plain_comment c2" and "plain_comment c3"
  shows "print_summary lib [JObj c1, JObj c2, JObj c3] = None"
proof -
  from plain_comment_fields[OF assms(1)] obtain i1 t1
    where 1: "map_of c1 ''likes'' = Some (JInt i1)" "0 \<le> i1" "i1 < 2 ^ 63"
      "map_of c1 ''text'' = Some (JStr t1)" by blast
  from plain_comment_fields[OF assms(2)] obtain i2 t2
    where 2: "map_of c2 ''likes'' = Some (JInt i2)" "0 \<le> i2" "i2 < 2 ^ 63"
      "map_of c2 ''text'' = Some (JStr t2)" by blast
  from plain_comment_fields[OF assms(3)] obtain i3 t3
    where 3: "map_of c3 ''likes'' = Some (JInt i3)" "0 \<le> i3" "i3 < 2 ^ 63"
      "map_of c3 ''text'' = Some (JStr t3)" by blast
  have s: "sum_likes (IntTotal 0) [JObj c1, JObj c2, JObj c3]
           = Some (Inr (IntTotal (i1 + i2 + i3)))"
    by (subst sum_likes_int[OF 1(1)], subst sum_likes_int[OF 2(1)], subst sum_likes_int[OF 3(1)])
       simp
  have b: "plain_int (i1 + i2 + i3)" "plain_int i1" "plain_int i2" "plain_int i3"
    using 1(2,3) 2(2,3) 3(2,3) by (intro small_plain_int; simp)+
  have f: "print_first lib [JObj c1, JObj c2, JObj c3] = None"
    by (subst print_first_str[OF 1(4)], subst print_first_str[OF 2(4)],
        subst print_first_str[OF 3(4)]) simp
  have l: "list_all plain_likes [JObj c1, JObj c2, JObj c3]"
    using b by (simp add: plain_likes_int[OF 1(1)] plain_likes_int[OF 2(1)] plain_likes_int[OF 3(1)])
  have x: "list_all plain_text [JObj c1, JObj c2, JObj c3]"
    by (simp add: plain_text_str[OF 1(4)] plain_text_str[OF 2(4)] plain_text_str[OF 3(4)])
  show ?thesis
    unfolding print_summary_def s using b(1) f l x by (simp add: plain_total_def)
qed

text \<open>
  Claim C5, amended. Page 1 carries two records and the cursor \<open>c1\<close>, page 2 one record and
  an empty cursor, each record one that the normalizer turns into a comment, and no cap is given.
  Then \<open>DouyinAPIScraper.scrape\<close> sends exactly two requests and, provided the output file can
  be written and each of the three comments has a string as text and an integer from 0 to
  9223372036854775807 as like count, returns the three normalized comments in page order.
  \<open>TikTokAPIScraper.scrape_video_comments\<close> returns the three comments in page order after
  exactly two requests provided page 1 also carries a \<open>has_more\<close> field that is not \<open>false\<close>,
  once the loop is given two passes.
\<close>

theorem two_page_scenario:
  "(DouyinAPIScraper_extract_video_id url \<noteq> [] \<and>
    get api_url (JStr ''0'') 0 = Inr (Response 200 (Inr (douyin_body [r1, r2] (JStr ''c1'')))) \<and>
    get api_url (JStr ''c1'') 1 = Inr (Response 200 (Inr (douyin_body [r3] (JStr '''')))) \<and>
    douyin_parse_one lib (DouyinAPIScraper_extract_video_id url) 0 r1 = Inr (Some c1) \<and>
    douyin_parse_one lib (DouyinAPIScraper_extract_video_id url) 1 r2 = Inr (Some c2) \<and>
    douyin_parse_one lib (DouyinAPIScraper_extract_video_id url) 0 r3 = Inr (Some c3)
    \<longrightarrow> douyin_requests lib get url None = 2 \<and>
        (output_write lib [JObj c1, JObj c2, JObj c3] = None \<and> plain_comment c1 \<and> plain_comment c2 \<and> plain_comment c3
         \<longrightarrow> DouyinAPIScraper_scrape lib get url None
               = Result [JObj c1, JObj c2, JObj c3] (Some 1) True)) \<and>
   (TikTokAPIScraper_extract_video_id turl = Inr vid \<and>
    tget tiktok_api_url (JStr ''0'') 0
      = Inr (Response 200 (Inr (tiktok_body_more [r1, r2] (JStr ''c1'') h))) \<and>
    h \<noteq> JBool False \<and>
    tget tiktok_api_url (JStr ''c1'') 1 = Inr (Response 200 (Inr (tiktok_body [r3] (JStr '''')))) \<and>
    TikTokAPIScraper_parse_comment lib r1 vid = Inr k1 \<and>
    TikTokAPIScraper_parse_comment lib r2 vid = Inr k2 \<and>
    TikTokAPIScraper_parse_comment lib r3 vid = Inr k3
    \<longrightarrow> TikTokAPIScraper_scrape_video_comments (Suc (Suc fuel)) lib tget turl None
          = Some (Inr ([k1, k2, k3], 2)))"
proof (intro conjI impI)
  assume a: "DouyinAPIScraper_extract_video_id url \<noteq> [] \<and>
    get api_url (JStr ''0'') 0 = Inr (Response 200 (Inr (douyin_body [r1, r2] (JStr ''c1'')))) \<and>
    get api_url (JStr ''c1'') 1 = Inr (Response 200 (Inr (douyin_body [r3] (JStr '''')))) \<and>
    douyin_parse_one lib (DouyinAPIScraper_extract_video_id url) 0 r1 = Inr (Some c1) \<and>
    douyin_parse_one lib (DouyinAPIScraper_extract_video_id url) 1 r2 = Inr (Some c2) \<and>
    douyin_parse_one lib (DouyinAPIScraper_extract_video_id url) 0 r3 = Inr (Some c3)"
  then have p1: "get api_url (JStr ''0'') 0 = Inr (Response 200 (Inr (douyin_body [r1, r2] (JStr ''c1''))))"
    and p2: "get api_url (JStr ''c1'') 1 = Inr (Response 200 (Inr (douyin_body [r3] (JStr ''''))))"
    and n1: "douyin_parse_one lib (DouyinAPIScraper_extract_video_id url) 0 r1 = Inr (Some c1)"
    and n2: "douyin_parse_one lib (DouyinAPIScraper_extract_video_id url) 1 r2 = Inr (Some c2)"
    and n3: "douyin_parse_one lib (DouyinAPIScraper_extract_video_id url) 0 r3 = Inr (Some c3)"
    by blast+
  have l: "douyin_loop lib get (DouyinAPIScraper_extract_video_id url) None [] (JStr ''0'') 0 0
                = Finished [JObj c1, JObj c2, JObj c3] 1 2"
    using p1 p2 n1 n2 n3 by (rule douyin_two_pages)
  show "douyin_requests lib get url None = 2"
    using l by (simp add: douyin_requests_def)
  assume t: "output_write lib [JObj c1, JObj c2, JObj c3] = None \<and> plain_comment c1 \<and> plain_comment c2 \<and> plain_comment c3"
  then have "print_summary lib [JObj c1, JObj c2, JObj c3] = None"
    by (intro three_plain_comments) simp_all
  with t show "DouyinAPIScraper_scrape lib get url None
                 = Result [JObj c1, JObj c2, JObj c3] (Some 1) True"
    using a l by (simp add: DouyinAPIScraper_scrape_def Let_def)
next
  assume a: "TikTokAPIScraper_extract_video_id turl = Inr vid \<and>
    tget tiktok_api_url (JStr ''0'') 0
      = Inr (Response 200 (Inr (tiktok_body_more [r1, r2] (JStr ''c1'') h))) \<and>
    h \<noteq> JBool False \<and>
    tget tiktok_api_url (JStr ''c1'') 1 = Inr (Response 200 (Inr (tiktok_body [r3] (JStr '''')))) \<and>
    TikTokAPIScraper_parse_comment lib r1 vid = Inr k1 \<and>
    TikTokAPIScraper_parse_comment lib r2 vid = Inr k2 \<and>
    TikTokAPIScraper_parse_comment lib r3 vid = Inr k3"
  then have p1: "tget tiktok_api_url (JStr ''0'') 0
      = Inr (Response 200 (Inr (tiktok_body_more [r1, r2] (JStr ''c1'') h)))"
    and h: "h \<noteq> JBool False"
    and p2: "tget tiktok_api_url (JStr ''c1'') 1 = Inr (Response 200 (Inr (tiktok_body [r3] (JStr ''''))))"
    and n1: "TikTokAPIScraper_parse_comment lib r1 vid = Inr k1"
    and n2: "TikTokAPIScraper_parse_comment lib r2 vid = Inr k2"
    and n3: "TikTokAPIScraper_parse_comment lib r3 vid = Inr k3"
    by blast+
  have "tiktok_loop (Suc (Suc fuel)) lib tget vid None [] (JStr ''0'') 0
             = Some ([k1, k2, k3], 2)"
    using p1 h p2 n1 n2 n3 by (rule tiktok_two_pages)
  with a show "TikTokAPIScraper_scrape_video_comments (Suc (Suc fuel)) lib tget turl None
          = Some (Inr ([k1, k2, k3], 2))"
    by (simp add: TikTokAPIScraper_scrape_video_comments_def)
qed


theorem two_page_scenario_witness:
  "DouyinAPIScraper_extract_video_id ''https://www.douyin.com/video/7'' \<noteq> [] \<and>
   douyin_parse_one strict_library (DouyinAPIScraper_extract_video_id ''https://www.douyin.com/video/7'')
     0 (vendor_record ''a'' ''one'') = Inr (Some (douyin_normalized ''7'' ''a'' ''one'')) \<and>
   output_write strict_library
     [JObj (douyin_normalized ''7'' ''a'' ''one''), JObj (douyin_normalized ''7'' ''b'' ''two''),
      JObj (douyin_normalized ''7'' ''c'' ''three'')] = None \<and>
   plain_comment (douyin_normalized ''7'' ''a'' ''one'') \<and>
   DouyinAPIScraper_scrape strict_library
     (serve [douyin_body [vendor_record ''a'' ''one'', vendor_record ''b'' ''two''] (JStr ''c1''),
             douyin_body [vendor_record ''c'' ''three''] (JStr '''')])
     ''https://www.douyin.com/video/7'' None
     = Result [JObj (douyin_normalized ''7'' ''a'' ''one''), JObj (douyin_normalized ''7'' ''b'' ''two''),
               JObj (douyin_normalized ''7'' ''c'' ''three'')] (Some 1) True \<and>
   douyin_requests strict_library
     (serve [douyin_body [vendor_record ''a'' ''one'', vendor_record ''b'' ''two''] (JStr ''c1''),
             douyin_body [vendor_record ''c'' ''three''] (JStr '''')])
     ''https://www.douyin.com/video/7'' None = 2 \<and>
   JBool True \<noteq> JBool False \<and>
   TikTokAPIScraper_parse_comment strict_library (vendor_record ''a'' ''one'') ''7''
     = Inr (tiktok_normalized ''7'' ''a'' ''one'') \<and>
   TikTokAPIScraper_scrape_video_comments (Suc (Suc 0)) strict_library
     (serve [tiktok_body_more [vendor_record ''a'' ''one'', vendor_record ''b'' ''two'']
               (JStr ''c1'') (JBool True),
             tiktok_body [vendor_record ''c'' ''three''] (JStr '''')])
     ''https://www.tiktok.com/@u/video/7'' None
     = Some (Inr ([tiktok_normalized ''7'' ''a'' ''one'', tiktok_normalized ''7'' ''b'' ''two'',
                   tiktok_normalized ''7'' ''c'' ''three''], 2))"
proof -
  let ?U = "''https://www.douyin.com/video/7''"
  let ?G = "serve [douyin_body [vendor_record ''a'' ''one'', vendor_record ''b'' ''two''] (JStr ''c1''),
                   douyin_body [vendor_record ''c'' ''three''] (JStr '''')]"
  let ?TG = "serve [tiktok_body_more [vendor_record ''a'' ''one'', vendor_record ''b'' ''two'']
                      (JStr ''c1'') (JBool True),
                    tiktok_body [vendor_record ''c'' ''three''] (JStr '''')]"
  have u: "DouyinAPIScraper_extract_video_id ?U \<noteq> []" by code_simp
  have g1: "?G api_url (JStr ''0'') 0
            = Inr (Response 200 (Inr (douyin_body [vendor_record ''a'' ''one'', vendor_record ''b'' ''two'']
                (JStr ''c1''))))"
    by (simp add: serve_def)
  have g2: "?G api_url (JStr ''c1'') 1
            = Inr (Response 200 (Inr (douyin_body [vendor_record ''c'' ''three''] (JStr ''''))))"
    by (simp add: serve_def)
  have d1: "douyin_parse_one strict_library (DouyinAPIScraper_extract_video_id ?U) 0
              (vendor_record ''a'' ''one'') = Inr (Some (douyin_normalized ''7'' ''a'' ''one''))"
    by code_simp
  have d2: "douyin_parse_one strict_library (DouyinAPIScraper_extract_video_id ?U) 1
              (vendor_record ''b'' ''two'') = Inr (Some (douyin_normalized ''7'' ''b'' ''two''))"
    by code_simp
  have d3: "douyin_parse_one strict_library (DouyinAPIScraper_extract_video_id ?U) 0
              (vendor_record ''c'' ''three'') = Inr (Some (douyin_normalized ''7'' ''c'' ''three''))"
    by code_simp
  have tu: "TikTokAPIScraper_extract_video_id ''https://www.tiktok.com/@u/video/7'' = Inr ''7''"
    by code_simp
  have t1: "?TG tiktok_api_url (JStr ''0'') 0
            = Inr (Response 200 (Inr (tiktok_body_more
                [vendor_record ''a'' ''one'', vendor_record ''b'' ''two''] (JStr ''c1'') (JBool True))))"
    by (simp add: serve_def)
  have t2: "?TG tiktok_api_url (JStr ''c1'') 1
            = Inr (Response 200 (Inr (tiktok_body [vendor_record ''c'' ''three''] (JStr ''''))))"
    by (simp add: serve_def)
  have k1: "TikTokAPIScraper_parse_comment strict_library (vendor_record ''a'' ''one'') ''7''
            = Inr (tiktok_normalized ''7'' ''a'' ''one'')" by code_simp
  have k2: "TikTokAPIScraper_parse_comment strict_library (vendor_record ''b'' ''two'') ''7''
            = Inr (tiktok_normalized ''7'' ''b'' ''two'')" by code_simp
  have k3: "TikTokAPIScraper_parse_comment strict_library (vendor_record ''c'' ''three'') ''7''
            = Inr (tiktok_normalized ''7'' ''c'' ''three'')" by code_simp
  have h: "JBool True \<noteq> JBool False" by simp
  have w: "output_write strict_library
     [JObj (douyin_normalized ''7'' ''a'' ''one''), JObj (douyin_normalized ''7'' ''b'' ''two''),
      JObj (douyin_normalized ''7'' ''c'' ''three'')] = None" by (simp add: strict_library_def)
  have q1: "plain_comment (douyin_normalized ''7'' ''a'' ''one'')" by code_simp
  have q2: "plain_comment (douyin_normalized ''7'' ''b'' ''two'')" by code_simp
  have q3: "plain_comment (douyin_normalized ''7'' ''c'' ''three'')" by code_simp
  note s = two_page_scenario[where url = ?U and get = ?G and lib = strict_library
      and ?r1.0 = "vendor_record ''a'' ''one''" and ?r2.0 = "vendor_record ''b'' ''two''"
      and ?r3.0 = "vendor_record ''c'' ''three''"
      and ?c1.0 = "douyin_normalized ''7'' ''a'' ''one''"
      and ?c2.0 = "douyin_normalized ''7'' ''b'' ''two''"
      and ?c3.0 = "douyin_normalized ''7'' ''c'' ''three''"
      and turl = "''https://www.tiktok.com/@u/video/7''" and vid = "''7''" and tget = ?TG
      and h = "JBool True"
      and ?k1.0 = "tiktok_normalized ''7'' ''a'' ''one''"
      and ?k2.0 = "tiktok_normalized ''7'' ''b'' ''two''"
      and ?k3.0 = "tiktok_normalized ''7'' ''c'' ''three''" and fuel = 0]
  from s u g1 g2 d1 d2 d3 tu t1 t2 k1 k2 k3 h w q1 q2 q3
  have "DouyinAPIScraper_scrape strict_library ?G ?U None
     = Result [JObj (douyin_normalized ''7'' ''a'' ''one''), JObj (douyin_normalized ''7'' ''b'' ''two''),
               JObj (douyin_normalized ''7'' ''c'' ''three'')] (Some 1) True"
    and "douyin_requests strict_library ?G ?U None = 2"
    and "TikTokAPIScraper_scrape_video_comments (Suc (Suc 0)) strict_library ?TG
           ''https://www.tiktok.com/@u/video/7'' None
     = Some (Inr ([tiktok_normalized ''7'' ''a'' ''one'', tiktok_normalized ''7'' ''b'' ''two'',
                   tiktok_normalized ''7'' ''c'' ''three''], 2))"
    by blast+
  with u d1 k1 h w q1 show ?thesis by blast
qed



section \<open>Properties of the rendered-page strategy\<close>

lemma douyin_pro_each_invariant:
  assumes "distinct (map (fingerprint lib) acc)"
    and "fingerprint lib ` set acc \<subseteq> seen"
    and "fingerprint lib ` set acc \<inter> seen0 = {}"
    and "seen0 \<subseteq> seen"
    and "douyin_pro_each lib items seen acc = (new, seen')"
  shows "distinct (map (fingerprint lib) new) \<and> fingerprint lib ` set new \<subseteq> seen' \<and>
         fingerprint lib ` set new \<inter> seen0 = {} \<and> seen0 \<subseteq> seen'"
  using assms
proof (induction items arbitrary: seen acc)
  case Nil
  then show ?case by simp
next
  case (Cons x xs)
  show ?case
  proof (cases "py_get x ''text'' (JStr '''')")
    case (Inl e)
    with Cons.prems show ?thesis by simp
  next
    case (Inr t)
    show ?thesis
    proof (cases t)
      case (JStr raw)
      let ?t = "py_strip raw"
      let ?h = "hash_str lib ?t"
      show ?thesis
      proof (cases "?t = [] \<or> length ?t < 2 \<or> ?h \<in> seen")
        case True
        with Cons.prems Inr JStr
        have "douyin_pro_each lib xs seen acc = (new, seen')"
          by (auto simp: Let_def split: if_splits)
        from Cons.IH[OF Cons.prems(1-4) this] show ?thesis .
      next
        case False
        obtain kvs where x: "x = JObj kvs"
          using Inr by (cases x) (auto simp: py_get_def)
        let ?c = "JObj [(''text'', JStr ?t), (''likes'', dict_get kvs ''likes'' (JInt 0)),
                        (''username'', dict_get kvs ''username'' (JStr ''anonymous'')),
                        (''timestamp'', JStr (now_iso lib))]"
        from False Cons.prems(5) Inr JStr x
        have r: "douyin_pro_each lib xs (insert ?h seen) (acc @ [?c]) = (new, seen')"
          by (simp add: Let_def py_get_def)
        have f: "fingerprint lib ?c = ?h" by (simp add: fingerprint_def)
        have 1: "distinct (map (fingerprint lib) (acc @ [?c]))"
          using Cons.prems(1,2) False f by auto
        have 2: "fingerprint lib ` set (acc @ [?c]) \<subseteq> insert ?h seen"
          using Cons.prems(2) f by auto
        have 3: "fingerprint lib ` set (acc @ [?c]) \<inter> seen0 = {}"
          using Cons.prems(3,4) False f by auto
        have 4: "seen0 \<subseteq> insert ?h seen" using Cons.prems(4) by auto
        from Cons.IH[OF 1 2 3 4 r] show ?thesis .
      qed
    qed (use Cons.prems Inr in auto)
  qed
qed

lemma extract_comments_advanced_invariant:
  assumes "DouyinScraperPro_extract_comments_advanced lib page_result seen = (new, seen')"
  shows "distinct (map (fingerprint lib) new) \<and> fingerprint lib ` set new \<subseteq> seen' \<and>
         fingerprint lib ` set new \<inter> seen = {} \<and> seen \<subseteq> seen'"
proof (cases page_result)
  case (Inl e)
  with assms show ?thesis by (simp add: DouyinScraperPro_extract_comments_advanced_def)
next
  case (Inr content)
  show ?thesis
  proof (cases "py_iter content")
    case (Inl e)
    with assms \<open>page_result = Inr content\<close> show ?thesis
      by (simp add: DouyinScraperPro_extract_comments_advanced_def)
  next
    case it: (Inr items)
    with assms Inr have "douyin_pro_each lib items seen [] = (new, seen')"
      by (simp add: DouyinScraperPro_extract_comments_advanced_def)
    from douyin_pro_each_invariant[OF _ _ _ _ this, of seen] show ?thesis by simp
  qed
qed

lemma douyin_pro_loop_invariant:
  assumes "distinct (map (fingerprint lib) comments)"
    and "fingerprint lib ` set comments \<subseteq> seen"
    and "douyin_pro_loop lib page max_comments comments seen scroll_attempts consecutive_empty
         = (comments', seen')"
  shows "distinct (map (fingerprint lib) comments') \<and> fingerprint lib ` set comments' \<subseteq> seen'"
  using assms
proof (induction lib page max_comments comments seen scroll_attempts consecutive_empty
       rule: douyin_pro_loop.induct)
  case (1 lib page max_comments comments seen scroll_attempts consecutive_empty)
  show ?case
  proof (cases "scroll_attempts < max_scrolls \<and> \<not> cap_reached max_comments (length comments)")
    case False
    with "1.prems" show ?thesis by (auto split: if_splits)
  next
    case True
    obtain new s' where e:
      "DouyinScraperPro_extract_comments_advanced lib (page scroll_attempts) seen = (new, s')"
      by (cases "DouyinScraperPro_extract_comments_advanced lib (page scroll_attempts) seen")
    note inv = extract_comments_advanced_invariant[OF e]
    show ?thesis
    proof (cases "new \<noteq> []")
      case ne: True
      with True e "1.prems"(3)
      have r: "douyin_pro_loop lib page max_comments (comments @ new) s' (Suc scroll_attempts) 0
               = (comments', seen')" by simp
      have d: "distinct (map (fingerprint lib) (comments @ new))"
        using "1.prems"(1,2) inv by auto
      have s: "fingerprint lib ` set (comments @ new) \<subseteq> s'"
        using "1.prems"(2) inv by auto
      from True have lt: "scroll_attempts < max_scrolls"
        and nc: "\<not> cap_reached max_comments (length comments)" by simp_all
      from "1.IH"(1)[OF lt nc e[symmetric] ne d s r] show ?thesis .
    next
      case emp: False
      show ?thesis
      proof (cases "5 \<le> Suc consecutive_empty")
        case True
        with \<open>scroll_attempts < max_scrolls \<and> \<not> cap_reached max_comments (length comments)\<close>
          e emp "1.prems" inv show ?thesis by auto
      next
        case False
        with \<open>scroll_attempts < max_scrolls \<and> \<not> cap_reached max_comments (length comments)\<close>
          e emp "1.prems"(3)
        have r: "douyin_pro_loop lib page max_comments comments s' (Suc scroll_attempts)
                   (Suc consecutive_empty) = (comments', seen')" by simp
        have s: "fingerprint lib ` set comments \<subseteq> s'" using "1.prems"(2) inv by auto
        from \<open>scroll_attempts < max_scrolls \<and> \<not> cap_reached max_comments (length comments)\<close>
        have lt: "scroll_attempts < max_scrolls"
          and nc: "\<not> cap_reached max_comments (length comments)" by simp_all
        from "1.IH"(2)[OF lt nc e[symmetric] emp False "1.prems"(1) s r] show ?thesis .
      qed
    qed
  qed
qed

text \<open>
  Claim C3 fails on the code of \<open>TikTokScraper\<close>. The page shows one comment, the same in every
  round; with a cap of two the run returns two comments with the same text. The duplicate test of
  \<open>_extract_comments\<close> compares identifiers that are synthesized from the position
  \<open>len(existing_comments) + idx\<close>, which no earlier comment can carry, so it never drops
  anything. (\<open>DouyinScraperPro\<close> records the hash of each text and keeps the fingerprints of its
  accumulated comments distinct, see \<open>douyin_pro_loop_invariant\<close>.)
\<close>

theorem rendered_page_keeps_duplicates:
  "map_option (map_sum id (map (\<lambda>c. (comment_id c, text_field c))))
     (TikTokScraper_scrape_video_comments 5 strict_library
        (static_page (JList [dom_record ''nice video'' ''ann'' 3]) ''https://www.tiktok.com/@u/video/7'')
        (Some 2))
   = Some (Inr [(''7_comment_0'', ''nice video''), (''7_comment_1'', ''nice video'')])"
  by code_simp



section \<open>Properties of the command-line entry point\<close>









section \<open>Properties of the sentiment parser\<close>


















end
